theory Spec2Isabelle
  imports Complex_Main "HOL-Library.Sublist" "HOL-Library.Multiset"
begin

section \<open>Renewgy parser: Excel sheets to fixed-schema CSV records\<close>

text \<open>
  A shallow embedding of \<^verbatim>\<open>renewgy_parser.py\<close>. The functions of the module keep their
  names. What the module takes from pandas (the emptiness test on a cell, the string form of a
  cell, numeric coercion, datetime parsing) is a parameter of the model: a record of functions
  over an arbitrary cell type.
\<close>

subsection \<open>Python strings\<close>

text \<open>
  A Python \<^verbatim>\<open>str\<close> is a \<^typ>\<open>string\<close>: a list of characters, each a code point below
  256. \<^verbatim>\<open>needle in s\<close> is \<^term>\<open>sublist needle s\<close> and \<^verbatim>\<open>s.startswith(p)\<close> is
  \<^term>\<open>prefix p s\<close>.
\<close>

definition py_in :: "string \<Rightarrow> string \<Rightarrow> bool" where
  "py_in needle s = sublist needle s"

definition startswith :: "string \<Rightarrow> string \<Rightarrow> bool" where
  "startswith s p = prefix p s"

text \<open>\<^verbatim>\<open>str.isspace\<close> on one character: the code points 9 to 13, 28 to 32, 133 and 160.\<close>

definition isspace :: "char \<Rightarrow> bool" where
  "isspace c = (c \<in> set [CHR 0x09, CHR 0x0A, CHR 0x0B, CHR 0x0C, CHR 0x0D,
                           CHR 0x1C, CHR 0x1D, CHR 0x1E, CHR 0x1F, CHR 0x20,
                           CHR 0x85, CHR 0xA0])"

definition strip :: "string \<Rightarrow> string" where
  "strip s = rev (dropWhile isspace (rev (dropWhile isspace s)))"

text \<open>
  \<^verbatim>\<open>str.lower\<close>: the letters A to Z and the upper-case letters of Latin-1 (192 to 222
  without the multiplication sign 215) move up by 32; every other character stays.
\<close>

definition lower_char :: "char \<Rightarrow> char" where
  "lower_char c =
     (let n = (of_char c :: nat)
      in if (65 \<le> n \<and> n \<le> 90) \<or> (192 \<le> n \<and> n \<le> 222 \<and> n \<noteq> 215)
         then char_of (n + 32) else c)"

definition lower :: "string \<Rightarrow> string" where
  "lower s = map lower_char s"

text \<open>\<^verbatim>\<open>s.split('_', maxsplit=1)[0]\<close>: the part of \<open>s\<close> before its first underscore.\<close>

definition split_underscore_head :: "string \<Rightarrow> string" where
  "split_underscore_head s = takeWhile (\<lambda>c. c \<noteq> CHR ''_'') s"

subsection \<open>Timestamps\<close>

text \<open>
  A naive \<^verbatim>\<open>pd.Timestamp\<close> is a count of nanoseconds since 1970-01-01 00:00, which is how
  pandas stores it; comparison of timestamps is comparison of the counts. An element of a
  datetime series is a timestamp or \<^verbatim>\<open>NaT\<close>.
\<close>

type_synonym timestamp = int

datatype stamp = NaT | TS timestamp

definition ns_per_hour :: int where
  "ns_per_hour = 3600000000000"

definition ns_per_day :: int where
  "ns_per_day = 86400000000000"

text \<open>\<^verbatim>\<open>Timestamp.weekday()\<close>: Monday is 0, Sunday is 6; day 0 was a Thursday.\<close>

definition weekday :: "timestamp \<Rightarrow> int" where
  "weekday t = (t div ns_per_day + 3) mod 7"

definition hour :: "timestamp \<Rightarrow> int" where
  "hour t = (t div ns_per_hour) mod 24"

text \<open>
  The timestamp of a civil date and time of day (proleptic Gregorian calendar), for writing
  down concrete timestamps.
\<close>

definition days_from_civil :: "int \<Rightarrow> int \<Rightarrow> int \<Rightarrow> int" where
  "days_from_civil y m d =
     (let y' = (if m \<le> 2 then y - 1 else y);
          era = y' div 400;
          yoe = y' - era * 400;
          doy = (153 * (if m > 2 then m - 3 else m + 9) + 2) div 5 + d - 1;
          doe = yoe * 365 + yoe div 4 - yoe div 100 + doy
      in era * 146097 + doe - 719468)"

definition civil :: "int \<Rightarrow> int \<Rightarrow> int \<Rightarrow> int \<Rightarrow> int \<Rightarrow> timestamp" where
  "civil y m d hh mm = days_from_civil y m d * ns_per_day + hh * ns_per_hour + mm * 60000000000"

subsection \<open>Exceptions\<close>

text \<open>
  One constructor for each place that raises, with what the message is built from. A
  \<^verbatim>\<open>raise ... from exc\<close> keeps \<open>exc\<close> as an argument. \<open>is_ValueError\<close> and
  \<open>is_KeyError\<close> give the Python class, which is what an \<^verbatim>\<open>except\<close> clause looks at.
\<close>

datatype error =
    IndexError
  | IndexingError
  | DateParseError
  | InvalidEanFormat int int
  | EanEmptyAfterExtraction
  | FailedToExtractEan error
  | NotEnoughRows
  | HeaderRowNotFound
  | ConsumptionTypeNotFound string nat "string list"
  | LengthMismatch nat nat
  | FailedToExtractData error
  | InsufficientRows nat int
  | InsufficientCols nat int nat
  | HeaderCellEmpty int int
  | NoPeriodSpecified string
  | VariantNotFound string string
  | SimilarAvailable string "string list"
  | NotInMapping string "string list"
  | EanNotFoundInMapping error
  | InvalidDataFormat error
  | ErrorProcessingFile error

fun is_KeyError :: "error \<Rightarrow> bool" where
  "is_KeyError (NoPeriodSpecified _) = True"
| "is_KeyError (VariantNotFound _ _) = True"
| "is_KeyError (SimilarAvailable _ _) = True"
| "is_KeyError (NotInMapping _ _) = True"
| "is_KeyError (EanNotFoundInMapping _) = True"
| "is_KeyError _ = False"

fun is_ValueError :: "error \<Rightarrow> bool" where
  "is_ValueError IndexError = False"
| "is_ValueError IndexingError = False"
| "is_ValueError e = (\<not> is_KeyError e)"

subsection \<open>The loaded sheet, and pandas on its cells\<close>

text \<open>
  The sheet is the \<^verbatim>\<open>DataFrame\<close> that \<^verbatim>\<open>pd.read_excel\<close> returned: \<open>nrows\<close> by \<open>ncols\<close>
  cells. Reading the file is outside the model. The cells are Python objects that the module
  only touches through pandas and \<^verbatim>\<open>str\<close>:
  \<^item> \<open>isna\<close> is \<^verbatim>\<open>pd.isna\<close> (and \<^verbatim>\<open>pd.notna\<close> its negation);
  \<^item> \<open>str\<close> is \<^verbatim>\<open>str(cell)\<close>;
  \<^item> \<open>to_numeric\<close> is \<^verbatim>\<open>pd.to_numeric(..., errors='coerce').astype(float)\<close> on one cell,
    \<open>None\<close> being the missing marker NaN;
  \<^item> \<open>to_datetime\<close> is \<^verbatim>\<open>pd.to_datetime\<close> on a series. pandas reads a series with one
    format, which it infers from the series (from its first entry that is not empty), so how a
    cell is read depends on the series it stands in: \<open>to_datetime P xs c\<close> is the reading of
    the cell \<open>c\<close> as an entry of the series \<open>xs\<close>, and \<open>None\<close> means that this entry makes
    the call raise (a \<^verbatim>\<open>ValueError\<close>), which \<^verbatim>\<open>errors='coerce'\<close> turns into \<^verbatim>\<open>NaT\<close>;
  \<^item> \<open>parse_datetime\<close> is \<^verbatim>\<open>pd.to_datetime\<close> on one string, \<open>None\<close> when it raises.
\<close>

record 'c pandas =
  isna :: "'c \<Rightarrow> bool"
  str :: "'c \<Rightarrow> string"
  to_numeric :: "'c \<Rightarrow> real option"
  to_datetime :: "'c list \<Rightarrow> 'c \<Rightarrow> stamp option"
  parse_datetime :: "string \<Rightarrow> stamp option"

record 'c frame =
  nrows :: nat
  ncols :: nat
  cell :: "nat \<Rightarrow> nat \<Rightarrow> 'c"

text \<open>\<^verbatim>\<open>excel_df.iloc[r]\<close> for a row \<open>r\<close> of the sheet.\<close>

definition row :: "'c frame \<Rightarrow> nat \<Rightarrow> 'c list" where
  "row g r = map (cell g r) [0..<ncols g]"

text \<open>
  \<^verbatim>\<open>excel_df.iloc[r, c]\<close> with Python integers: a negative index counts from the end, an
  index out of range raises \<^verbatim>\<open>IndexError\<close>.
\<close>

definition norm_index :: "nat \<Rightarrow> int \<Rightarrow> nat option" where
  "norm_index n i =
     (let j = (if i < 0 then i + int n else i)
      in if 0 \<le> j \<and> j < int n then Some (nat j) else None)"

definition iloc :: "'c frame \<Rightarrow> int \<Rightarrow> int \<Rightarrow> error + 'c" where
  "iloc g r c =
     (case norm_index (nrows g) r of
        None \<Rightarrow> Inl IndexError
      | Some i \<Rightarrow>
          (case norm_index (ncols g) c of
             None \<Rightarrow> Inl IndexError
           | Some j \<Rightarrow> Inr (cell g i j)))"

text \<open>
  \<^verbatim>\<open>excel_df.iloc[a:b, col]\<close> for a column \<open>col\<close> of the sheet: the slice of rows is
  cut at the end of the sheet.
\<close>

definition column_slice :: "'c frame \<Rightarrow> nat \<Rightarrow> nat \<Rightarrow> nat \<Rightarrow> 'c list" where
  "column_slice g a b col = map (\<lambda>r. cell g r col) [a..<min b (nrows g)]"

text \<open>\<^verbatim>\<open>s[mask]\<close> for a boolean mask on the same index as \<open>s\<close>.\<close>

definition select :: "bool list \<Rightarrow> 'a list \<Rightarrow> 'a list" where
  "select flags xs = map snd (filter fst (zip flags xs))"

subsection \<open>Configuration and mapping table\<close>

record ean_mapping =
  source_id :: string
  variable_id :: string
  description :: string

record parser_config =
  sheet_index :: int
  header_row :: int
  header_col :: int
  data_start_row :: int
  timestamp_col :: int
  value_col :: int
  min_rows :: int
  min_cols :: int
  start_date :: "timestamp option"

definition DEFAULT_CONFIG :: parser_config where
  "DEFAULT_CONFIG =
     \<lparr>sheet_index = 0, header_row = 0, header_col = 1, data_start_row = 4, timestamp_col = 0,
      value_col = 2, min_rows = 6, min_cols = 3, start_date = None\<rparr>"

text \<open>
  The mapping dictionary, in insertion order: \<^verbatim>\<open>k in ean_mapping\<close> is \<open>has_key\<close>,
  \<^verbatim>\<open>ean_mapping[k]\<close> is \<^const>\<open>map_of\<close>, \<^verbatim>\<open>ean_mapping.keys()\<close> is \<open>keys\<close>. The keys of
  a dictionary are distinct.
\<close>

type_synonym mapping_table = "(string \<times> ean_mapping) list"

definition keys :: "mapping_table \<Rightarrow> string list" where
  "keys m = map fst m"

definition has_key :: "mapping_table \<Rightarrow> string \<Rightarrow> bool" where
  "has_key m k = (map_of m k \<noteq> None)"

subsection \<open>StructuralValidator and identifier extraction\<close>

definition validate_excel_structure ::
  "'c pandas \<Rightarrow> 'c frame \<Rightarrow> parser_config \<Rightarrow> error + unit" where
  "validate_excel_structure P g config =
     (if int (nrows g) < min_rows config
        then Inl (InsufficientRows (nrows g) (min_rows config))
      else if int (ncols g) < min_cols config
        then Inl (InsufficientCols (ncols g) (min_cols config)
               (length (filter (\<lambda>c. \<not> list_all (\<lambda>r. isna P (cell g r c)) [0..<nrows g])
                  [0..<ncols g])))
      else (case iloc g (header_row config) (header_col config) of
              Inl e \<Rightarrow> Inl e
            | Inr v \<Rightarrow>
                if isna P v then Inl (HeaderCellEmpty (header_row config) (header_col config))
                else Inr ()))"

text \<open>
  Every exception inside \<^verbatim>\<open>extract_ean_from_excel\<close>, its own and the \<^verbatim>\<open>IndexError\<close> of
  \<^verbatim>\<open>iloc\<close>, is caught and raised again as a \<^verbatim>\<open>ValueError\<close>.
\<close>

definition extract_ean_from_excel :: "'c pandas \<Rightarrow> 'c frame \<Rightarrow> parser_config \<Rightarrow> error + string" where
  "extract_ean_from_excel P g config =
     (case iloc g (header_row config) (header_col config) of
        Inl e \<Rightarrow> Inl (FailedToExtractEan e)
      | Inr ean_raw \<Rightarrow>
          if isna P ean_raw \<or> \<not> py_in ''_'' (str P ean_raw)
            then Inl (FailedToExtractEan
                   (InvalidEanFormat (header_row config) (header_col config)))
          else (let ean = strip (split_underscore_head (str P ean_raw))
                in if ean = [] then Inl (FailedToExtractEan EanEmptyAfterExtraction)
                   else Inr ean))"

subsection \<open>HeaderLocator, DataRowLocator, ColumnLocator\<close>

text \<open>
  \<open>row_has P g marker r\<close>: some cell of row \<open>r\<close> is not empty and its lower-cased string
  form contains \<open>marker\<close>. \<open>find_header_row\<close> is the loop over the first five rows that
  \<^verbatim>\<open>find_consumption_column\<close> and \<^verbatim>\<open>find_timestamp_column\<close> both start with.
\<close>

definition row_has :: "'c pandas \<Rightarrow> 'c frame \<Rightarrow> string \<Rightarrow> nat \<Rightarrow> bool" where
  "row_has P g marker r =
     list_ex (\<lambda>v. \<not> isna P v \<and> py_in marker (lower (str P v))) (row g r)"

definition find_header_row :: "'c pandas \<Rightarrow> 'c frame \<Rightarrow> nat option" where
  "find_header_row P g = find (row_has P g ''role description'') [0..<min 5 (nrows g)]"

definition find_consumption_column :: "'c pandas \<Rightarrow> 'c frame \<Rightarrow> string \<Rightarrow> error + nat" where
  "find_consumption_column P g consumption_type =
     (if nrows g < 2 then Inl NotEnoughRows
      else (case find_header_row P g of
              None \<Rightarrow> Inl HeaderRowNotFound
            | Some h \<Rightarrow>
                (case find (\<lambda>c. \<not> isna P (cell g h c) \<and>
                                 strip (str P (cell g h c)) = consumption_type) [0..<ncols g] of
                   Some c \<Rightarrow> Inr c
                 | None \<Rightarrow>
                     Inl (ConsumptionTypeNotFound consumption_type (h + 1)
                       (map (\<lambda>v. strip (str P v))
                         (filter (\<lambda>v. \<not> isna P v \<and> startswith (strip (str P v)) ''MEASURED'')
                           (row g h)))))))"

definition find_data_start_row :: "'c pandas \<Rightarrow> 'c frame \<Rightarrow> nat" where
  "find_data_start_row P g =
     (case find (row_has P g ''profile description'') [0..<min 6 (nrows g)] of
        Some r \<Rightarrow> r + 1
      | None \<Rightarrow> 4)"

text \<open>The two tests on the string form of a sampled cell.\<close>

definition year_or_colon :: "string \<Rightarrow> bool" where
  "year_or_colon s =
     (py_in ''2024'' s \<or> py_in ''2023'' s \<or> py_in ''2025'' s \<or> py_in ''2022'' s \<or> py_in '':'' s)"

definition year_dash_or_colon :: "string \<Rightarrow> bool" where
  "year_dash_or_colon s =
     (py_in ''2024'' s \<or> py_in ''2023'' s \<or> py_in ''2025'' s \<or> py_in ''2022'' s \<or>
      py_in ''-'' s \<or> py_in '':'' s)"

text \<open>
  \<open>date_like_count\<close> of one column, in the branch without a header row (three sampled rows)
  and in the branch with one (five sampled rows, and the string has to parse as well).
\<close>

definition count_headerless :: "'c pandas \<Rightarrow> 'c frame \<Rightarrow> nat \<Rightarrow> nat \<Rightarrow> nat" where
  "count_headerless P g d col =
     length (filter (\<lambda>v. \<not> isna P v \<and> year_dash_or_colon (str P v))
               (column_slice g d (d + 3) col))"

definition count_parsed :: "'c pandas \<Rightarrow> 'c frame \<Rightarrow> nat \<Rightarrow> nat \<Rightarrow> nat" where
  "count_parsed P g d col =
     length (filter (\<lambda>v. \<not> isna P v \<and> year_or_colon (str P v) \<and>
                          parse_datetime P (str P v) \<noteq> None)
               (column_slice g d (d + 5) col))"

text \<open>
  \<^verbatim>\<open>find_timestamp_column\<close> returns the column; the model returns with it the last line the
  function logs, which says how the column was found.
\<close>

datatype ts_log =
    FoundByHeuristic nat
  | WarnHeaderlessColumn0
  | FoundDateHeader nat nat
  | FoundByDataAnalysis nat
  | InferredFromConsumption nat
  | Column0DatePattern
  | WarnColumn0

definition column0_fallback :: "'c pandas \<Rightarrow> 'c frame \<Rightarrow> nat \<times> ts_log" where
  "column0_fallback P g =
     (let d = find_data_start_row P g
      in if d < nrows g \<and> \<not> isna P (cell g d 0) \<and> year_or_colon (str P (cell g d 0))
         then (0, Column0DatePattern)
         else (0, WarnColumn0))"

definition find_timestamp_column_log :: "'c pandas \<Rightarrow> 'c frame \<Rightarrow> nat \<times> ts_log" where
  "find_timestamp_column_log P g =
     (case find_header_row P g of
        None \<Rightarrow>
          (let d = find_data_start_row P g
           in case find (\<lambda>col. count_headerless P g d col \<ge> 2) [0..<min 4 (ncols g)] of
                Some col \<Rightarrow> (col, FoundByHeuristic col)
              | None \<Rightarrow> (0, WarnHeaderlessColumn0))
      | Some h \<Rightarrow>
          (case find (\<lambda>col. \<not> isna P (cell g h col) \<and>
                             py_in ''date'' (lower (str P (cell g h col)))) [0..<ncols g] of
             Some col \<Rightarrow> (col, FoundDateHeader col (h + 1))
           | None \<Rightarrow>
               (let d = find_data_start_row P g
                in case find (\<lambda>col. count_parsed P g d col \<ge> 3) [0..<min 4 (ncols g)] of
                     Some col \<Rightarrow> (col, FoundByDataAnalysis col)
                   | None \<Rightarrow>
                       (case find_consumption_column P g ''MEASURED ACTIVE CONSUMPTION'' of
                          Inr consumption_col \<Rightarrow>
                            if consumption_col > 0
                              then (consumption_col - 1,
                                    InferredFromConsumption (consumption_col - 1))
                            else column0_fallback P g
                        | Inl e \<Rightarrow> column0_fallback P g))))"

definition find_timestamp_column :: "'c pandas \<Rightarrow> 'c frame \<Rightarrow> nat" where
  "find_timestamp_column P g = fst (find_timestamp_column_log P g)"

subsection \<open>SeriesExtractor and OutputAssembler\<close>

text \<open>\<^verbatim>\<open>timestamps_dt >= config.start_date\<close> on one element: false on \<^verbatim>\<open>NaT\<close>.\<close>

fun stamp_ge :: "stamp \<Rightarrow> timestamp \<Rightarrow> bool" where
  "stamp_ge NaT sd = False"
| "stamp_ge (TS t) sd = (t \<ge> sd)"

definition coerce :: "stamp option \<Rightarrow> stamp" where
  "coerce r = (case r of None \<Rightarrow> NaT | Some d \<Rightarrow> d)"

text \<open>
  \<^verbatim>\<open>pd.to_datetime(xs)\<close>, which raises as soon as one entry of the series is not read, and
  \<^verbatim>\<open>pd.to_datetime(xs, errors='coerce')\<close>, which puts \<^verbatim>\<open>NaT\<close> there.
\<close>

definition to_datetime_series :: "'c pandas \<Rightarrow> 'c list \<Rightarrow> stamp list option" where
  "to_datetime_series P xs = those (map (to_datetime P xs) xs)"

definition to_datetime_coerce :: "'c pandas \<Rightarrow> 'c list \<Rightarrow> stamp list" where
  "to_datetime_coerce P xs = map (\<lambda>c. coerce (to_datetime P xs c)) xs"

definition extract_data_from_excel ::
  "'c pandas \<Rightarrow> 'c frame \<Rightarrow> parser_config \<Rightarrow> string \<Rightarrow> error + ('c list \<times> real option list)" where
  "extract_data_from_excel P g config consumption_type =
     (case find_consumption_column P g consumption_type of
        Inl e \<Rightarrow> Inl (FailedToExtractData e)
      | Inr vc \<Rightarrow>
          (let tc = find_timestamp_column P g;
               d = find_data_start_row P g
           in if \<not> tc < ncols g then Inl (FailedToExtractData IndexError)
              else
                (let timestamps = column_slice g d (nrows g) tc;
                     vals = map (to_numeric P) (column_slice g d (nrows g) vc);
                     valid_indices =
                       (case start_date config of
                          None \<Rightarrow> map (\<lambda>v. True) timestamps
                        | Some sd \<Rightarrow>
                            map (\<lambda>t. stamp_ge t sd) (to_datetime_coerce P timestamps));
                     timestamps' = select valid_indices timestamps;
                     vals' = select valid_indices vals
                 in if length timestamps' \<noteq> length vals'
                      then Inl (FailedToExtractData
                             (LengthMismatch (length timestamps') (length vals')))
                    else Inr (timestamps', vals'))))"

text \<open>
  A row of the output frame. The two series are aligned on their index; where one is
  shorter, pandas fills its column with the missing marker.
\<close>

record 'c output_record =
  csv_date :: "'c option"
  csv_value :: "real option"
  csv_meternumber :: string
  csv_source_id :: string
  csv_source_serialnumber :: string
  csv_source_ean :: string
  csv_source_name :: string
  csv_mapping_config :: string
  csv_variable_id :: string

definition create_output_dataframe ::
  "'c list \<Rightarrow> real option list \<Rightarrow> string \<Rightarrow> ean_mapping \<Rightarrow> 'c output_record list" where
  "create_output_dataframe timestamps vals ean mapping =
     map (\<lambda>i. \<lparr>csv_date = (if i < length timestamps then Some (timestamps ! i) else None),
               csv_value = (if i < length vals then vals ! i else None),
               csv_meternumber = ean,
               csv_source_id = source_id mapping,
               csv_source_serialnumber = [],
               csv_source_ean = [],
               csv_source_name = [],
               csv_mapping_config = [],
               csv_variable_id = variable_id mapping\<rparr>)
       [0..<max (length timestamps) (length vals)]"

subsection \<open>PeriodClassifier and PeriodSplitter\<close>

text \<open>
  \<^verbatim>\<open>is_peak_hour\<close> on an element of a datetime series. On \<^verbatim>\<open>NaT\<close> both
  \<^verbatim>\<open>weekday()\<close> and \<^verbatim>\<open>hour\<close> are nan, every comparison with nan is false, and the function
  returns \<^verbatim>\<open>False\<close>. \<open>is_peak_hour_str\<close> is the same function called on a string, which it
  parses first.
\<close>

fun is_peak_hour :: "stamp \<Rightarrow> bool" where
  "is_peak_hour NaT = False"
| "is_peak_hour (TS t) = (if weekday t \<ge> 5 then False else 7 \<le> hour t \<and> hour t < 22)"

definition is_peak_hour_str :: "'c pandas \<Rightarrow> string \<Rightarrow> error + bool" where
  "is_peak_hour_str P s =
     (case parse_datetime P s of
        None \<Rightarrow> Inl DateParseError
      | Some d \<Rightarrow> Inr (is_peak_hour d))"

text \<open>
  \<^verbatim>\<open>pd.to_datetime(timestamps)\<close> raises as soon as one entry of the series is not read under
  the format of the series. The mask has the
  index of \<open>timestamps\<close>; \<^verbatim>\<open>values[peak_mask]\<close> raises \<^verbatim>\<open>IndexingError\<close> when \<open>values\<close>
  has an index that the mask lacks, and ignores the entries of the mask beyond \<open>values\<close>.
\<close>

definition split_data_by_period ::
  "'c pandas \<Rightarrow> 'c list \<Rightarrow> real option list \<Rightarrow>
   error + (('c list \<times> real option list) \<times> ('c list \<times> real option list))" where
  "split_data_by_period P timestamps vals =
     (case to_datetime_series P timestamps of
        None \<Rightarrow> Inl DateParseError
      | Some timestamps_dt \<Rightarrow>
          (let peak_mask = map is_peak_hour timestamps_dt
           in if length vals > length peak_mask then Inl IndexingError
              else Inr ((select peak_mask timestamps, select peak_mask vals),
                        (select (map Not peak_mask) timestamps,
                         select (map Not peak_mask) vals))))"

subsection \<open>MappingResolver\<close>

definition find_ean_mapping ::
  "string \<Rightarrow> mapping_table \<Rightarrow> bool option \<Rightarrow> error + ean_mapping" where
  "find_ean_mapping ean m is_peak =
     (case (case is_peak of
              None \<Rightarrow> None
            | Some p \<Rightarrow> map_of m (ean @ (if p then ''_peak'' else ''_offpeak''))) of
        Some mapping \<Rightarrow> Inr mapping
      | None \<Rightarrow>
          (case map_of m ean of
             Some mapping \<Rightarrow> Inr mapping
           | None \<Rightarrow>
               if has_key m (ean @ ''_peak'') \<or> has_key m (ean @ ''_offpeak'')
                 then (case is_peak of
                         None \<Rightarrow> Inl (NoPeriodSpecified ean)
                       | Some p \<Rightarrow>
                           Inl (VariantNotFound ean (if p then ''peak'' else ''offpeak'')))
               else (let available_eans = filter (\<lambda>k. startswith k ean) (keys m)
                     in if available_eans \<noteq> [] then Inl (SimilarAvailable ean available_eans)
                        else Inl (NotInMapping ean (take 5 (keys m))))))"

definition has_peak_offpeak_variants :: "string \<Rightarrow> mapping_table \<Rightarrow> bool" where
  "has_peak_offpeak_variants ean m = (has_key m (ean @ ''_peak'') \<and> has_key m (ean @ ''_offpeak''))"

subsection \<open>Conversion of one sheet\<close>

text \<open>
  \<^verbatim>\<open>parse_renewgy_excel_to_csv\<close> from the loaded sheet on. A written file is the suffix added
  to the stem of the output path and the rows of the frame written. The \<^verbatim>\<open>except\<close>
  clauses raise a \<^verbatim>\<open>KeyError\<close> again as a \<^verbatim>\<open>KeyError\<close>, a \<^verbatim>\<open>ValueError\<close> as a
  \<^verbatim>\<open>ValueError\<close> and everything else as a \<^verbatim>\<open>ValueError\<close>.
\<close>

datatype 'c written = Written string "'c output_record list"

definition reraise :: "error \<Rightarrow> error" where
  "reraise e =
     (if is_KeyError e then EanNotFoundInMapping e
      else if is_ValueError e then InvalidDataFormat e
      else ErrorProcessingFile e)"

definition convert_dual ::
  "'c pandas \<Rightarrow> 'c frame \<Rightarrow> mapping_table \<Rightarrow> parser_config \<Rightarrow> string \<Rightarrow> string \<Rightarrow>
   error + 'c written list" where
  "convert_dual P g m config consumption_type ean =
     (case extract_data_from_excel P g config consumption_type of
        Inl e \<Rightarrow> Inl e
      | Inr (timestamps, vals) \<Rightarrow>
          (case split_data_by_period P timestamps vals of
             Inl e \<Rightarrow> Inl e
           | Inr ((peak_timestamps, peak_values), (offpeak_timestamps, offpeak_values)) \<Rightarrow>
               (case find_ean_mapping ean m (Some True) of
                  Inl e \<Rightarrow> Inl e
                | Inr peak_mapping \<Rightarrow>
                    (case find_ean_mapping ean m (Some False) of
                       Inl e \<Rightarrow> Inl e
                     | Inr offpeak_mapping \<Rightarrow>
                         Inr ((if length peak_values > 0
                                 then [Written ''_peak'' (create_output_dataframe
                                         peak_timestamps peak_values ean peak_mapping)]
                               else []) @
                              (if length offpeak_values > 0
                                 then [Written ''_offpeak'' (create_output_dataframe
                                         offpeak_timestamps offpeak_values ean offpeak_mapping)]
                               else []))))))"

definition convert_single ::
  "'c pandas \<Rightarrow> 'c frame \<Rightarrow> mapping_table \<Rightarrow> parser_config \<Rightarrow> string \<Rightarrow> string \<Rightarrow>
   error + 'c written list" where
  "convert_single P g m config consumption_type ean =
     (case find_ean_mapping ean m None of
        Inl e \<Rightarrow> Inl e
      | Inr mapping \<Rightarrow>
          (case extract_data_from_excel P g config consumption_type of
             Inl e \<Rightarrow> Inl e
           | Inr (timestamps, vals) \<Rightarrow>
               Inr [Written [] (create_output_dataframe timestamps vals ean mapping)]))"

definition parse_renewgy_excel_to_csv ::
  "'c pandas \<Rightarrow> 'c frame \<Rightarrow> mapping_table \<Rightarrow> parser_config \<Rightarrow> string \<Rightarrow>
   error + 'c written list" where
  "parse_renewgy_excel_to_csv P g m config consumption_type =
     (case (case validate_excel_structure P g config of
              Inl e \<Rightarrow> Inl e
            | Inr u \<Rightarrow>
                (case extract_ean_from_excel P g config of
                   Inl e \<Rightarrow> Inl e
                 | Inr ean \<Rightarrow>
                     if has_peak_offpeak_variants ean m
                       then convert_dual P g m config consumption_type ean
                     else convert_single P g m config consumption_type ean)) of
        Inl e \<Rightarrow> Inl (reraise e)
      | Inr files \<Rightarrow> Inr files)"

subsection \<open>The data region\<close>

text \<open>
  The rows from the data-start row to the end of the sheet that the optional start date
  keeps: with no start date all of them, with a start date those whose timestamp cell, read
  with \<^verbatim>\<open>errors='coerce'\<close> as an entry of the timestamp series of the data region, is at or
  after it. This is the row set that the specification counts the output against; it is
  compared with \<open>extract_data_from_excel\<close> below.
\<close>

definition keeps :: "'c pandas \<Rightarrow> parser_config \<Rightarrow> 'c list \<Rightarrow> 'c \<Rightarrow> bool" where
  "keeps P config series v =
     (case start_date config of
        None \<Rightarrow> True
      | Some sd \<Rightarrow> stamp_ge (coerce (to_datetime P series v)) sd)"

definition timestamp_series :: "'c pandas \<Rightarrow> 'c frame \<Rightarrow> 'c list" where
  "timestamp_series P g =
     map (\<lambda>r. cell g r (find_timestamp_column P g)) [find_data_start_row P g..<nrows g]"

definition data_region_rows :: "'c pandas \<Rightarrow> 'c frame \<Rightarrow> parser_config \<Rightarrow> nat list" where
  "data_region_rows P g config =
     filter (\<lambda>r. keeps P config (timestamp_series P g) (cell g r (find_timestamp_column P g)))
       [find_data_start_row P g..<nrows g]"

subsection \<open>Words of the specification about the timestamp column\<close>

text \<open>\<open>first_such p n c\<close>: \<open>c\<close> is the first index below \<open>n\<close> that satisfies \<open>p\<close>.\<close>

definition first_such :: "(nat \<Rightarrow> bool) \<Rightarrow> nat \<Rightarrow> nat \<Rightarrow> bool" where
  "first_such p n c = (c < n \<and> p c \<and> (\<forall>j \<in> set [0..<c]. \<not> p j))"

text \<open>
  The content heuristic in the words of the specification, for a sample of \<open>n\<close> data rows:
  a column among the first four is accepted when a majority of its sampled cells contain a
  year token or a \<open>:\<close> or \<open>-\<close> separator. It is compared with the source's heuristic below.
\<close>

definition spec_heuristic_accepts :: "nat \<Rightarrow> 'c pandas \<Rightarrow> 'c frame \<Rightarrow> nat \<Rightarrow> bool" where
  "spec_heuristic_accepts n P g col =
     (let d = find_data_start_row P g;
          sample = column_slice g d (d + n) col
      in col < min 4 (ncols g) \<and>
         length sample < 2 * length (filter (\<lambda>v. \<not> isna P v \<and> year_dash_or_colon (str P v)) sample))"

subsection \<open>Sample sheets and tables\<close>

text \<open>
  Concrete inputs for the examples below. A sample cell is empty or holds a text; the sample
  pandas parses the numbers and the dates of two small tables and nothing else. A date of the
  table is written with minutes (\<^verbatim>\<open>%Y-%m-%d %H:%M\<close>) or with seconds
  (\<^verbatim>\<open>%Y-%m-%d %H:%M:%S\<close>). As pandas does, the sample pandas takes the format of a series
  from its first entry that is not empty and reads every entry with it, so that an entry
  written in the other format is not read; when that first entry has no format, every entry
  is read on its own.
\<close>

datatype xcell = Blank | Txt string

definition sample_numbers :: "(string \<times> real) list" where
  "sample_numbers = [(''1.5'', 1.5), (''2'', 2), (''0.25'', 0.25), (''3'', 3)]"

datatype date_format = Minutes | Seconds

definition civil_s :: "int \<Rightarrow> int \<Rightarrow> int \<Rightarrow> int \<Rightarrow> int \<Rightarrow> int \<Rightarrow> timestamp" where
  "civil_s y m d hh mm ss = civil y m d hh mm + ss * 1000000000"

definition sample_dates :: "(string \<times> date_format \<times> stamp) list" where
  "sample_dates =
     [(''2024-01-01 06:45'', Minutes, TS (civil 2024 1 1 6 45)),
      (''2024-01-01 07:00'', Minutes, TS (civil 2024 1 1 7 0)),
      (''2024-01-01 22:00'', Minutes, TS (civil 2024 1 1 22 0)),
      (''2024-01-02 00:00'', Minutes, TS (civil 2024 1 2 0 0)),
      (''2024-01-02 08:15'', Minutes, TS (civil 2024 1 2 8 15)),
      (''2024-01-02 08:15:30'', Seconds, TS (civil_s 2024 1 2 8 15 30)),
      (''2024-01-06 12:00'', Minutes, TS (civil 2024 1 6 12 0))]"

definition sample_format :: "xcell list \<Rightarrow> date_format option" where
  "sample_format xs =
     (case filter (\<lambda>c. c \<noteq> Blank) xs of
        Txt s # rest \<Rightarrow> map_option fst (map_of sample_dates s)
      | _ \<Rightarrow> None)"

definition sample_to_datetime :: "xcell list \<Rightarrow> xcell \<Rightarrow> stamp option" where
  "sample_to_datetime xs c =
     (case c of
        Blank \<Rightarrow> Some NaT
      | Txt s \<Rightarrow>
          (case map_of sample_dates s of
             None \<Rightarrow> None
           | Some (f, t) \<Rightarrow>
               (case sample_format xs of
                  None \<Rightarrow> Some t
                | Some f' \<Rightarrow> if f = f' then Some t else None)))"

definition px :: "xcell pandas" where
  "px = \<lparr>isna = (\<lambda>c. c = Blank),
         str = (\<lambda>c. case c of Blank \<Rightarrow> ''nan'' | Txt s \<Rightarrow> s),
         to_numeric = (\<lambda>c. case c of Blank \<Rightarrow> None | Txt s \<Rightarrow> map_of sample_numbers s),
         to_datetime = sample_to_datetime,
         parse_datetime = (\<lambda>s. map_option snd (map_of sample_dates s))\<rparr>"

definition sheet_of :: "'c list list \<Rightarrow> 'c frame" where
  "sheet_of rows =
     \<lparr>nrows = length rows,
      ncols = (case rows of [] \<Rightarrow> 0 | r # rs \<Rightarrow> length r),
      cell = (\<lambda>r c. rows ! r ! c)\<rparr>"

text \<open>
  A sheet as the vendor exports it: the identifier in row 0, the header row with its labels in
  row 1, the marker of the data in row 2, five data rows. Row 5 holds a timestamp that does
  not parse and row 6 a value that is not a number.
\<close>

definition sheet_labelled :: "xcell frame" where
  "sheet_labelled = sheet_of
     [[Txt ''EAN'', Txt ''541448911004090123_ABC'', Blank],
      [Txt ''Role description'', Txt ''Date'', Txt ''MEASURED ACTIVE CONSUMPTION''],
      [Txt ''Profile description'', Blank, Blank],
      [Blank, Txt ''2024-01-01 06:45'', Txt ''1.5''],
      [Blank, Txt ''2024-01-01 07:00'', Txt ''2''],
      [Blank, Txt ''soon'', Txt ''0.25''],
      [Blank, Txt ''2024-01-02 08:15'', Txt ''n/a''],
      [Blank, Txt ''2024-01-06 12:00'', Txt ''3'']]"

text \<open>
  A sheet whose header row has no label with "date" in it and whose timestamps are written
  with dashes only, in a year outside 2022 to 2025.
\<close>

definition sheet_dashes :: "xcell frame" where
  "sheet_dashes = sheet_of
     [[Txt ''EAN'', Txt ''541448911004090123_ABC'', Blank],
      [Txt ''Role description'', Txt ''When'', Txt ''MEASURED ACTIVE CONSUMPTION''],
      [Txt ''Profile description'', Blank, Blank],
      [Txt ''05-01-21'', Txt ''a'', Txt ''1.5''],
      [Txt ''06-01-21'', Txt ''b'', Txt ''2''],
      [Txt ''07-01-21'', Txt ''c'', Txt ''0.25''],
      [Txt ''08-01-21'', Txt ''d'', Txt ''3''],
      [Txt ''09-01-21'', Txt ''e'', Txt ''3'']]"

text \<open>The same data rows under no header row at all.\<close>

definition sheet_headerless :: "xcell frame" where
  "sheet_headerless = sheet_of
     [[Txt ''a'', Txt ''05-01-21'', Txt ''1.5''],
      [Txt ''b'', Txt ''06-01-21'', Txt ''2''],
      [Txt ''c'', Txt ''07-01-21'', Txt ''0.25''],
      [Txt ''d'', Txt ''08-01-21'', Txt ''3''],
      [Txt ''e'', Txt ''09-01-21'', Txt ''3''],
      [Txt ''f'', Txt ''10-01-21'', Txt ''3''],
      [Txt ''g'', Txt ''11-01-21'', Txt ''3'']]"

text \<open>A sheet with no header row whose timestamps hold no year from 2022 to 2025, no colon and no dash.\<close>

definition sheet_slashes :: "xcell frame" where
  "sheet_slashes = sheet_of
     [[Txt ''05/01/21 0815'', Txt ''1.5''],
      [Txt ''05/01/21 0830'', Txt ''2''],
      [Txt ''05/01/21 0845'', Txt ''0.25''],
      [Txt ''05/01/21 0900'', Txt ''3''],
      [Txt ''05/01/21 0915'', Txt ''3''],
      [Txt ''05/01/21 0930'', Txt ''3''],
      [Txt ''05/01/21 0945'', Txt ''3'']]"


text \<open>
  A sheet with a header row that has no "date" label. The cells of column 0 hold a colon and
  do not parse as a datetime; the cells of column 1 are dates.
\<close>

definition sheet_unlabelled :: "xcell frame" where
  "sheet_unlabelled = sheet_of
     [[Txt ''EAN'', Txt ''541448911004090123_ABC'', Blank],
      [Txt ''Role description'', Txt ''When'', Txt ''MEASURED ACTIVE CONSUMPTION''],
      [Txt ''Profile description'', Blank, Blank],
      [Txt ''slot 25:61'', Txt ''2024-01-01 06:45'', Txt ''1.5''],
      [Txt ''slot 25:62'', Txt ''2024-01-01 07:00'', Txt ''2''],
      [Txt ''slot 25:63'', Txt ''2024-01-02 08:15'', Txt ''0.25''],
      [Txt ''slot 25:64'', Txt ''2024-01-06 12:00'', Txt ''3''],
      [Txt ''slot 25:65'', Blank, Txt ''3'']]"

text \<open>
  Two sheets whose consumption label stands in column 0 of the header row, which has no
  "date" label: one with a colon in the cells of column 0, which do not parse, one without.
\<close>

definition sheet_colons :: "xcell frame" where
  "sheet_colons = sheet_of
     [[Txt ''EAN'', Txt ''541448911004090123_ABC'', Blank],
      [Txt ''MEASURED ACTIVE CONSUMPTION'', Txt ''Role description'', Blank],
      [Txt ''Profile description'', Blank, Blank],
      [Txt ''slot 25:61'', Txt ''a'', Blank],
      [Txt ''slot 25:62'', Txt ''b'', Blank],
      [Txt ''slot 25:63'', Txt ''c'', Blank],
      [Txt ''slot 25:64'', Txt ''d'', Blank]]"

definition sheet_bare :: "xcell frame" where
  "sheet_bare = sheet_of
     [[Txt ''EAN'', Txt ''541448911004090123_ABC'', Blank],
      [Txt ''MEASURED ACTIVE CONSUMPTION'', Txt ''Role description'', Blank],
      [Txt ''Profile description'', Blank, Blank],
      [Txt ''1.5'', Txt ''a'', Blank],
      [Txt ''2'', Txt ''b'', Blank],
      [Txt ''0.25'', Txt ''c'', Blank],
      [Txt ''3'', Txt ''d'', Blank]]"

text \<open>
  A sheet with no header row: timestamps in column 0 with no year from 2022 to 2025, no colon
  and no dash, negative values in column 1.
\<close>

definition sheet_negative :: "xcell frame" where
  "sheet_negative = sheet_of
     [[Txt ''05/01/21 0815'', Txt ''-1.5''],
      [Txt ''05/01/21 0830'', Txt ''-2''],
      [Txt ''05/01/21 0845'', Txt ''-0.25''],
      [Txt ''05/01/21 0900'', Txt ''-3''],
      [Txt ''05/01/21 0915'', Txt ''-3''],
      [Txt ''05/01/21 0930'', Txt ''-3''],
      [Txt ''05/01/21 0945'', Txt ''-3'']]"

text \<open>A sheet whose identifier cell has white space around the identifier.\<close>

definition sheet_padded :: "xcell frame" where
  "sheet_padded = sheet_of
     [[Txt ''EAN'', Txt (CHR 0x20 # CHR 0x09 # ''541448911004090123'' @ CHR 0x20 # CHR 0x0A # ''_ABC''),
       Blank]]"

definition record_of :: "string \<Rightarrow> string \<Rightarrow> ean_mapping" where
  "record_of s v = \<lparr>source_id = s, variable_id = v, description = []\<rparr>"

definition table_single :: mapping_table where
  "table_single = [(''541448911004090123'', record_of ''src'' ''var'')]"

definition table_dual :: mapping_table where
  "table_dual =
     [(''541448911004090123_peak'', record_of ''src'' ''var_peak''),
      (''541448911004090123_offpeak'', record_of ''src'' ''var_offpeak'')]"

definition table_near :: mapping_table where
  "table_near = [(''12345'', record_of ''a'' ''x''), (''12399'', record_of ''b'' ''y'')]"

definition table_far :: mapping_table where
  "table_far = [(''123'', record_of ''a'' ''x'')]"

section \<open>Properties\<close>


subsection \<open>Calendar facts used below\<close>

lemma weekday_range: "0 \<le> weekday t \<and> weekday t < 7"
  by (simp add: weekday_def)

lemma hour_range: "0 \<le> hour t \<and> hour t < 24"
  by (simp add: hour_def)


subsection \<open>C1: the period classifier\<close>

text \<open>
  C1. On a timestamp, \<open>is_peak_hour\<close> is false when the weekday is Saturday or Sunday
  (weekday at least 5, Monday being 0), and on the other days it is true exactly when the
  hour is at least 7 and below 22: hour 7 is peak, hour 22 is off-peak. 2024-01-01 was a
  Monday and 2024-01-06 a Saturday: Monday 06:59 is off-peak, Monday 07:00 and 21:59 are peak,
  Monday 22:00 is off-peak, Saturday 12:00 is off-peak.
\<close>

theorem C1_period_classifier:
  "(weekday t \<ge> 5 \<longrightarrow> is_peak_hour (TS t) = False) \<and>
   (weekday t < 5 \<longrightarrow> is_peak_hour (TS t) = (7 \<le> hour t \<and> hour t < 22)) \<and>
   (weekday t < 5 \<and> hour t = 7 \<longrightarrow> is_peak_hour (TS t)) \<and>
   (weekday t < 5 \<and> hour t = 22 \<longrightarrow> \<not> is_peak_hour (TS t)) \<and>
   weekday (civil 2024 1 1 0 0) = 0 \<and> weekday (civil 2024 1 6 0 0) = 5 \<and>
   \<not> is_peak_hour (TS (civil 2024 1 1 6 59)) \<and>
   is_peak_hour (TS (civil 2024 1 1 7 0)) \<and>
   is_peak_hour (TS (civil 2024 1 1 21 59)) \<and>
   \<not> is_peak_hour (TS (civil 2024 1 1 22 0)) \<and>
   \<not> is_peak_hour (TS (civil 2024 1 6 12 0))"
  by (simp add: weekday_def hour_def civil_def days_from_civil_def ns_per_day_def ns_per_hour_def)

theorem C1_period_classifier_witness:
  "weekday (civil 2024 1 2 7 30) < 5 \<and> hour (civil 2024 1 2 7 30) = 7 \<and>
   is_peak_hour (TS (civil 2024 1 2 7 30)) \<and>
   weekday (civil 2024 1 7 9 0) \<ge> 5 \<and> is_peak_hour (TS (civil 2024 1 7 9 0)) = False"
  using C1_period_classifier [of "civil 2024 1 2 7 30"]
    C1_period_classifier [of "civil 2024 1 7 9 0"]
  by (simp add: weekday_def hour_def civil_def days_from_civil_def ns_per_day_def ns_per_hour_def)


subsection \<open>Strings\<close>

lemma py_in_single: "py_in [c] s = (c \<in> set s)"
proof (induction s)
  case Nil
  show ?case by (simp add: py_in_def)
next
  case (Cons x xs)
  then show ?case by (auto simp add: py_in_def sublist_Cons_right)
qed

lemma split_underscore_head_append:
  "CHR ''_'' \<notin> set pre \<Longrightarrow> split_underscore_head (pre @ CHR ''_'' # rest) = pre"
  by (induction pre) (auto simp add: split_underscore_head_def)


subsection \<open>C3 and C8: the mapping resolver\<close>

lemma has_key_keys: "has_key m k = (k \<in> set (keys m))"
  by (simp add: has_key_def keys_def map_of_eq_None_iff)

text \<open>
  C3. Resolving an identifier with no period fails with a mapping error (a \<^verbatim>\<open>KeyError\<close>)
  whenever the bare key is absent from the table and a \<open>_peak\<close> or an \<open>_offpeak\<close> variant is
  present: the result is never a record of one of the variants.
\<close>

theorem C3_no_period_with_variants_fails:
  assumes "\<not> has_key m ean"
    and "has_key m (ean @ ''_peak'') \<or> has_key m (ean @ ''_offpeak'')"
  shows "find_ean_mapping ean m None = Inl (NoPeriodSpecified ean) \<and>
         is_KeyError (NoPeriodSpecified ean) \<and>
         (\<forall>mapping. find_ean_mapping ean m None \<noteq> Inr mapping)"
  using assms by (auto simp add: find_ean_mapping_def has_key_def)

theorem C3_no_period_with_variants_fails_witness:
  "\<not> has_key table_dual ''541448911004090123'' \<and>
   has_key table_dual ''541448911004090123_peak'' \<and>
   find_ean_mapping ''541448911004090123'' table_dual None =
     Inl (NoPeriodSpecified ''541448911004090123'')"
proof -
  have a: "\<not> has_key table_dual ''541448911004090123''"
    by (simp add: has_key_def table_dual_def)
  have b: "has_key table_dual (''541448911004090123'' @ ''_peak'')"
    by (simp add: has_key_def table_dual_def)
  from C3_no_period_with_variants_fails [OF a disjI1 [OF b]] a b show ?thesis
    by simp
qed

text \<open>
  C8. When the table has neither the bare key nor a tariff variant of the identifier, with
  or without a period, the error lists every key of the table that starts with the
  identifier, in the order of the table; when no key starts with it, the error lists the first
  five keys of the table, so at most five. The table \<open>{"123"}\<close> and the identifier
  \<open>"9999"\<close> give the key \<open>"123"\<close>; the table \<open>{"12345", "12399"}\<close> and the identifier
  \<open>"123"\<close> give both keys.
\<close>

theorem C8_near_miss_suggestions:
  assumes "\<not> has_key m ean" and "\<not> has_key m (ean @ ''_peak'')"
    and "\<not> has_key m (ean @ ''_offpeak'')"
  shows "find_ean_mapping ean m period =
           (if \<exists>k \<in> set (keys m). prefix ean k
            then Inl (SimilarAvailable ean (filter (prefix ean) (keys m)))
            else Inl (NotInMapping ean (take 5 (keys m)))) \<and>
         set (filter (prefix ean) (keys m)) = {k \<in> set (keys m). prefix ean k} \<and>
         length (take 5 (keys m)) \<le> 5 \<and>
         find_ean_mapping ''9999'' table_far None = Inl (NotInMapping ''9999'' [''123'']) \<and>
         find_ean_mapping ''123'' table_near None =
           Inl (SimilarAvailable ''123'' [''12345'', ''12399''])"
proof -
  have variant: "map_of m (ean @ (if p then ''_peak'' else ''_offpeak'')) = None" for p
    using assms by (simp add: has_key_def)
  have bare: "map_of m ean = None"
    using assms by (simp add: has_key_def)
  have "find_ean_mapping ean m period =
          (if filter (prefix ean) (keys m) \<noteq> []
           then Inl (SimilarAvailable ean (filter (prefix ean) (keys m)))
           else Inl (NotInMapping ean (take 5 (keys m))))"
    using assms variant bare
    by (cases period) (simp_all add: find_ean_mapping_def startswith_def)
  moreover have "(filter (prefix ean) (keys m) \<noteq> []) = (\<exists>k \<in> set (keys m). prefix ean k)"
    by (simp add: filter_empty_conv)
  moreover have "find_ean_mapping ''9999'' table_far None = Inl (NotInMapping ''9999'' [''123''])"
    by (simp add: find_ean_mapping_def table_far_def has_key_def keys_def startswith_def)
  moreover have "find_ean_mapping ''123'' table_near None =
      Inl (SimilarAvailable ''123'' [''12345'', ''12399''])"
    by (simp add: find_ean_mapping_def table_near_def has_key_def keys_def startswith_def)
  ultimately show ?thesis by simp
qed

theorem C8_near_miss_suggestions_witness:
  "\<not> has_key table_near ''123'' \<and>
   find_ean_mapping ''123'' table_near (Some True) =
     Inl (SimilarAvailable ''123'' [''12345'', ''12399'']) \<and>
   \<not> has_key table_far ''9999'' \<and>
   find_ean_mapping ''9999'' table_far (Some False) = Inl (NotInMapping ''9999'' [''123''])"
proof -
  have a: "\<not> has_key table_near ''123''" "\<not> has_key table_near (''123'' @ ''_peak'')"
    "\<not> has_key table_near (''123'' @ ''_offpeak'')"
    by (simp_all add: has_key_def table_near_def)
  have b: "\<not> has_key table_far ''9999''" "\<not> has_key table_far (''9999'' @ ''_peak'')"
    "\<not> has_key table_far (''9999'' @ ''_offpeak'')"
    by (simp_all add: has_key_def table_far_def)
  from C8_near_miss_suggestions [OF a, of "Some True"]
    C8_near_miss_suggestions [OF b, of "Some False"] a(1) b(1)
  show ?thesis
    by (simp add: keys_def table_near_def table_far_def)
qed


subsection \<open>C7: identifier extraction\<close>

lemma strip_decomposition:
  "\<exists>a b. s = a @ strip s @ b \<and> (\<forall>c \<in> set a. isspace c) \<and> (\<forall>c \<in> set b. isspace c)"
proof -
  let ?t = "dropWhile isspace s"
  let ?a = "takeWhile isspace s"
  let ?b = "rev (takeWhile isspace (rev ?t))"
  have "?t = rev (takeWhile isspace (rev ?t) @ dropWhile isspace (rev ?t))"
    by (simp only: takeWhile_dropWhile_id rev_rev_ident)
  also have "\<dots> = rev (dropWhile isspace (rev ?t)) @ ?b"
    by (rule rev_append)
  finally have t: "?t = strip s @ ?b"
    by (simp only: strip_def)
  have "s = ?a @ ?t" by simp
  with t have "s = ?a @ strip s @ ?b" by simp
  moreover have "\<forall>c \<in> set ?a. isspace c"
    by (auto dest: set_takeWhileD)
  moreover have "\<forall>c \<in> set ?b. isspace c"
    by (auto dest: set_takeWhileD)
  ultimately show ?thesis by blast
qed

lemma last_dropWhile_nonempty: "dropWhile p xs \<noteq> [] \<Longrightarrow> last (dropWhile p xs) = last xs"
proof -
  assume a: "dropWhile p xs \<noteq> []"
  have "last xs = last (takeWhile p xs @ dropWhile p xs)" by simp
  also have "\<dots> = last (dropWhile p xs)" using a by (rule last_appendR)
  finally show ?thesis by simp
qed

lemma strip_ends:
  assumes "strip s \<noteq> []"
  shows "\<not> isspace (hd (strip s)) \<and> \<not> isspace (last (strip s))"
proof -
  let ?t = "dropWhile isspace s"
  let ?u = "dropWhile isspace (rev ?t)"
  from assms have u: "?u \<noteq> []" by (simp add: strip_def)
  have t: "?t \<noteq> []"
  proof
    assume "?t = []"
    then have "?u = []" by (simp only: rev.simps dropWhile.simps)
    with u show False by contradiction
  qed
  have "last (strip s) = hd ?u"
    using u by (simp add: strip_def last_rev)
  moreover have "\<not> isspace (hd ?u)"
    using u by (rule hd_dropWhile)
  moreover have "hd (strip s) = last ?u"
    using u by (simp add: strip_def hd_rev)
  moreover have "last ?u = last (rev ?t)"
    using u by (rule last_dropWhile_nonempty)
  moreover have "last (rev ?t) = hd ?t"
    using t by (simp add: last_rev)
  moreover have "\<not> isspace (hd ?t)"
    using t by (rule hd_dropWhile)
  ultimately show ?thesis by simp
qed

text \<open>
  C7. Let the identifier cell at (\<open>header_row\<close>, \<open>header_col\<close>) exist. When it is not
  empty and its string form is \<open>pre\<close>, an underscore and a rest, with no underscore in
  \<open>pre\<close>, and \<open>pre\<close> does not trim to the empty string, extraction returns \<open>pre\<close>
  trimmed. Extraction fails exactly when the cell is empty, or has no underscore, or the part
  before the first underscore trims to the empty string, and every failure is a
  \<^verbatim>\<open>ValueError\<close>. What extraction returns is the part before the first underscore without
  the white space at its two ends: that part is white space, then the identifier, then white
  space, and the identifier neither starts nor ends with white space; a space, a tab, a line
  feed and a carriage return are white space. The cell \<open>541448911004090123_ABC\<close> gives
  \<open>541448911004090123\<close>, and so does the cell in which a space and a tab stand before these
  digits and a space and a line feed after them.
\<close>

theorem C7_identifier_extraction:
  assumes "iloc g (header_row config) (header_col config) = Inr v"
  shows "(\<not> isna P v \<and> str P v = pre @ CHR ''_'' # rest \<and> CHR ''_'' \<notin> set pre \<and>
            strip pre \<noteq> [] \<longrightarrow>
          extract_ean_from_excel P g config = Inr (strip pre)) \<and>
         ((\<exists>e. extract_ean_from_excel P g config = Inl e) \<longleftrightarrow>
            (isna P v \<or> CHR ''_'' \<notin> set (str P v) \<or>
             strip (split_underscore_head (str P v)) = [])) \<and>
         (\<forall>e. extract_ean_from_excel P g config = Inl e \<longrightarrow> is_ValueError e) \<and>
         (\<forall>ean. extract_ean_from_excel P g config = Inr ean \<longrightarrow>
            ean = strip (split_underscore_head (str P v)) \<and>
            (\<exists>a b. split_underscore_head (str P v) = a @ ean @ b \<and>
                   (\<forall>c \<in> set a. isspace c) \<and> (\<forall>c \<in> set b. isspace c)) \<and>
            \<not> isspace (hd ean) \<and> \<not> isspace (last ean)) \<and>
         isspace (CHR 0x20) \<and> isspace (CHR 0x09) \<and> isspace (CHR 0x0A) \<and> isspace (CHR 0x0D) \<and>
         extract_ean_from_excel px sheet_labelled DEFAULT_CONFIG = Inr ''541448911004090123'' \<and>
         extract_ean_from_excel px sheet_padded DEFAULT_CONFIG = Inr ''541448911004090123''"
proof -
  let ?x = "extract_ean_from_excel P g config"
  let ?head = "split_underscore_head (str P v)"
  have returned: "\<not> isna P v \<and> str P v = pre @ CHR ''_'' # rest \<and> CHR ''_'' \<notin> set pre \<and>
      strip pre \<noteq> [] \<longrightarrow> ?x = Inr (strip pre)"
    using assms
    by (auto simp add: extract_ean_from_excel_def py_in_single Let_def
        split_underscore_head_append)
  have fails: "(\<exists>e. ?x = Inl e) \<longleftrightarrow>
      (isna P v \<or> CHR ''_'' \<notin> set (str P v) \<or> strip ?head = [])"
    using assms by (auto simp add: extract_ean_from_excel_def py_in_single Let_def)
  have cls: "\<forall>e. ?x = Inl e \<longrightarrow> is_ValueError e"
    using assms by (auto simp add: extract_ean_from_excel_def py_in_single Let_def)
  have trimmed: "\<forall>ean. ?x = Inr ean \<longrightarrow>
      ean = strip ?head \<and>
      (\<exists>a b. ?head = a @ ean @ b \<and> (\<forall>c \<in> set a. isspace c) \<and> (\<forall>c \<in> set b. isspace c)) \<and>
      \<not> isspace (hd ean) \<and> \<not> isspace (last ean)"
  proof (intro allI impI)
    fix ean
    assume r: "?x = Inr ean"
    with assms have e: "ean = strip ?head" and ne: "strip ?head \<noteq> []"
      by (auto simp add: extract_ean_from_excel_def Let_def split: if_splits)
    from strip_decomposition [of ?head] strip_ends [OF ne] e
    show "ean = strip ?head \<and>
      (\<exists>a b. ?head = a @ ean @ b \<and> (\<forall>c \<in> set a. isspace c) \<and> (\<forall>c \<in> set b. isspace c)) \<and>
      \<not> isspace (hd ean) \<and> \<not> isspace (last ean)"
      by simp
  qed
  have space: "isspace (CHR 0x20)" "isspace (CHR 0x09)" "isspace (CHR 0x0A)" "isspace (CHR 0x0D)"
    by (simp_all add: isspace_def)
  have plain: "extract_ean_from_excel px sheet_labelled DEFAULT_CONFIG = Inr ''541448911004090123''"
    by code_simp
  have padded: "extract_ean_from_excel px sheet_padded DEFAULT_CONFIG = Inr ''541448911004090123''"
    by code_simp
  show ?thesis
    by (intro conjI) (rule returned fails cls trimmed space plain padded)+
qed

theorem C7_identifier_extraction_witness:
  "iloc sheet_padded (header_row DEFAULT_CONFIG) (header_col DEFAULT_CONFIG) =
     Inr (Txt (CHR 0x20 # CHR 0x09 # ''541448911004090123'' @ CHR 0x20 # CHR 0x0A # ''_ABC'')) \<and>
   strip (CHR 0x20 # CHR 0x09 # ''541448911004090123'' @ [CHR 0x20, CHR 0x0A]) =
     ''541448911004090123'' \<and>
   extract_ean_from_excel px sheet_padded DEFAULT_CONFIG = Inr ''541448911004090123'' \<and>
   iloc sheet_labelled 1 0 = Inr (Txt ''Role description'') \<and>
   (\<exists>e. extract_ean_from_excel px sheet_labelled
           (DEFAULT_CONFIG\<lparr>header_row := 1, header_col := 0\<rparr>) = Inl e)"
proof -
  let ?pre = "CHR 0x20 # CHR 0x09 # ''541448911004090123'' @ [CHR 0x20, CHR 0x0A]"
  have a: "iloc sheet_padded (header_row DEFAULT_CONFIG) (header_col DEFAULT_CONFIG) =
      Inr (Txt (CHR 0x20 # CHR 0x09 # ''541448911004090123'' @ CHR 0x20 # CHR 0x0A # ''_ABC''))"
    by (simp add: iloc_def norm_index_def sheet_padded_def sheet_of_def DEFAULT_CONFIG_def)
  have b: "iloc sheet_labelled
      (header_row (DEFAULT_CONFIG\<lparr>header_row := 1, header_col := 0\<rparr>))
      (header_col (DEFAULT_CONFIG\<lparr>header_row := 1, header_col := 0\<rparr>)) =
      Inr (Txt ''Role description'')"
    by (simp add: iloc_def norm_index_def sheet_labelled_def sheet_of_def DEFAULT_CONFIG_def)
  have c: "str px (Txt (CHR 0x20 # CHR 0x09 # ''541448911004090123'' @ CHR 0x20 # CHR 0x0A # ''_ABC'')) =
      ?pre @ CHR ''_'' # ''ABC''"
    by (simp add: px_def)
  have d: "strip ?pre = ''541448911004090123''"
    by (simp add: strip_def isspace_def)
  have e: "CHR ''_'' \<notin> set ?pre" by simp
  have f: "\<not> isna px (Txt (CHR 0x20 # CHR 0x09 # ''541448911004090123'' @ CHR 0x20 # CHR 0x0A # ''_ABC''))"
    by (simp add: px_def)
  from C7_identifier_extraction [OF a, of px ?pre "''ABC''"] c d e f
  have g: "extract_ean_from_excel px sheet_padded DEFAULT_CONFIG = Inr ''541448911004090123''"
    by simp
  from C7_identifier_extraction [OF b, of px]
  have h: "\<exists>e. extract_ean_from_excel px sheet_labelled
           (DEFAULT_CONFIG\<lparr>header_row := 1, header_col := 0\<rparr>) = Inl e"
    by (simp add: px_def)
  from a b d g h show ?thesis by simp
qed

subsection \<open>Boolean masks\<close>

lemma select_Nil [simp]: "select [] xs = []" "select flags [] = []"
  by (simp_all add: select_def)

lemma select_Cons [simp]:
  "select (f # flags) (x # xs) = (if f then x # select flags xs else select flags xs)"
  by (simp add: select_def)

lemma select_map: "select (map p xs) (map q xs) = map q (filter p xs)"
  by (induction xs) simp_all

lemma select_all: "select (map (\<lambda>x. True) xs) ys = take (length xs) ys"
proof (induction xs arbitrary: ys)
  case Nil
  show ?case by simp
next
  case (Cons x xs)
  then show ?case by (cases ys) simp_all
qed

lemma length_select_split:
  "length flags = length xs \<Longrightarrow>
   length (select flags xs) + length (select (map Not flags) xs) = length xs"
proof (induction flags arbitrary: xs)
  case Nil
  then show ?case by simp
next
  case (Cons f flags)
  then show ?case by (cases xs) simp_all
qed

lemma length_select_same:
  "length xs = length ys \<Longrightarrow> length (select flags xs) = length (select flags ys)"
proof (induction flags arbitrary: xs ys)
  case Nil
  then show ?case by simp
next
  case (Cons f flags)
  then show ?case by (cases xs; cases ys) simp_all
qed

lemma zip_select: "zip (select flags xs) (select flags ys) = select flags (zip xs ys)"
proof (induction flags arbitrary: xs ys)
  case Nil
  then show ?case by simp
next
  case (Cons f flags)
  then show ?case by (cases xs; cases ys) simp_all
qed

lemma subseq_select: "subseq (select flags xs) xs"
proof (induction flags arbitrary: xs)
  case Nil
  then show ?case by simp
next
  case (Cons f flags)
  then show ?case by (cases xs) (simp_all add: list_emb_Cons)
qed

lemma mset_select_split:
  "length flags = length xs \<Longrightarrow>
   mset (select flags xs) + mset (select (map Not flags) xs) = mset xs"
proof (induction flags arbitrary: xs)
  case Nil
  then show ?case by simp
next
  case (Cons f flags)
  then show ?case by (cases xs) simp_all
qed

lemma select_nths:
  "length flags = length xs \<Longrightarrow> select flags xs = nths xs {i. i < length xs \<and> flags ! i}"
proof (induction flags arbitrary: xs)
  case Nil
  then show ?case by simp
next
  case (Cons f flags)
  then obtain y ys where xs: "xs = y # ys" and len: "length flags = length ys"
    by (cases xs) simp_all
  have "{j. Suc j \<in> {i. i < length xs \<and> (f # flags) ! i}} = {j. j < length ys \<and> flags ! j}"
    by (auto simp add: xs)
  with Cons.IH [OF len] show ?case
    by (simp add: xs nths_Cons)
qed

lemma nths_restrict: "nths xs (A \<inter> {i. i < length xs}) = nths xs A"
proof -
  have "filter (\<lambda>p. snd p \<in> A \<inter> {i. i < length xs}) (zip xs [0..<length xs]) =
        filter (\<lambda>p. snd p \<in> A) (zip xs [0..<length xs])"
    by (rule filter_cong) (auto dest: set_zip_rightD)
  then show ?thesis by (simp add: nths_def)
qed

lemma select_not_nths:
  assumes "length flags = length xs"
  shows "select (map Not flags) xs = nths xs (- {i. i < length xs \<and> flags ! i})"
proof -
  have "select (map Not flags) xs = nths xs {i. i < length xs \<and> map Not flags ! i}"
    using assms by (simp add: select_nths)
  also have "{i. i < length xs \<and> map Not flags ! i} =
      (- {i. i < length xs \<and> flags ! i}) \<inter> {i. i < length xs}"
    using assms by auto
  finally show ?thesis by (simp add: nths_restrict)
qed

lemma those_map_coerce:
  "\<forall>c \<in> set xs. f c \<noteq> None \<Longrightarrow> those (map f xs) = Some (map (\<lambda>c. coerce (f c)) xs)"
  by (induction xs) (auto simp add: coerce_def)

lemma those_map_None:
  "c \<in> set xs \<Longrightarrow> f c = None \<Longrightarrow> those (map f xs) = None"
  by (induction xs) (auto split: option.splits)


subsection \<open>C2: the period splitter\<close>

text \<open>
  C2, as stated, promises two sub-series for every extracted series. The splitter parses
  the series of timestamps first and raises when an entry is not read, so a series with the
  timestamp \<open>soon\<close> gives no sub-series at all; nor does a series of two timestamps that each
  parse alone, the first written with minutes and the second with seconds, because the whole
  series is read with the format of its first entry.
\<close>

theorem C2_unparseable_series_counterexample:
  "\<not> (\<exists>peak offpeak. split_data_by_period px [Txt ''soon''] [Some 0.25] = Inr (peak, offpeak)) \<and>
   split_data_by_period px [Txt ''soon''] [Some 0.25] = Inl DateParseError \<and>
   parse_datetime px ''2024-01-01 07:00'' = Some (TS (civil 2024 1 1 7 0)) \<and>
   parse_datetime px ''2024-01-02 08:15:30'' = Some (TS (civil_s 2024 1 2 8 15 30)) \<and>
   split_data_by_period px [Txt ''2024-01-01 07:00'', Txt ''2024-01-02 08:15:30'']
     [Some 2, Some 0.25] = Inl DateParseError"
  by (simp add: split_data_by_period_def to_datetime_series_def px_def sample_to_datetime_def
      sample_format_def sample_dates_def)

text \<open>
  C2, amended. For every extracted series (timestamps and values of the same length) that
  \<^verbatim>\<open>pd.to_datetime\<close> reads without raising, that is, every timestamp of which is read as an
  entry of the series, the splitter returns a peak and an off-peak sub-series, each
  index-aligned: the peak one holds the points at the set \<open>A\<close> of indices whose timestamp is
  classified peak and the off-peak one the points at the complement of \<open>A\<close>, so that no point
  is in both and none in neither; the two lengths sum to the length of the input, and each
  sub-series keeps the order of the input.
\<close>

theorem C2_split_partitions:
  assumes "length timestamps = length vals"
    and "\<forall>c \<in> set timestamps. to_datetime P timestamps c \<noteq> None"
  shows "\<exists>pt pv ot ov.
           split_data_by_period P timestamps vals = Inr ((pt, pv), (ot, ov)) \<and>
           (let A = {i. i < length timestamps \<and>
                        is_peak_hour (coerce (to_datetime P timestamps (timestamps ! i)))}
            in pt = nths timestamps A \<and> pv = nths vals A \<and>
               ot = nths timestamps (- A) \<and> ov = nths vals (- A)) \<and>
           length pt = length pv \<and> length ot = length ov \<and>
           length pt + length ot = length timestamps \<and>
           subseq (zip pt pv) (zip timestamps vals) \<and>
           subseq (zip ot ov) (zip timestamps vals) \<and>
           mset (zip pt pv) + mset (zip ot ov) = mset (zip timestamps vals)"
proof -
  define flags where "flags = map (\<lambda>c. is_peak_hour (coerce (to_datetime P timestamps c))) timestamps"
  define A where "A = {i. i < length timestamps \<and>
                          is_peak_hour (coerce (to_datetime P timestamps (timestamps ! i)))}"
  have len: "length flags = length timestamps" "length flags = length vals"
    using assms(1) by (simp_all add: flags_def)
  have lenz: "length flags = length (zip timestamps vals)"
    using assms(1) by (simp add: flags_def)
  have A1: "{i. i < length timestamps \<and> flags ! i} = A"
    by (auto simp add: flags_def A_def)
  have A2: "{i. i < length vals \<and> flags ! i} = A"
    using assms(1) by (auto simp add: flags_def A_def)
  have split: "split_data_by_period P timestamps vals =
      Inr ((select flags timestamps, select flags vals),
           (select (map Not flags) timestamps, select (map Not flags) vals))"
    using assms
    by (simp add: split_data_by_period_def to_datetime_series_def those_map_coerce flags_def
        comp_def Let_def)
  have idx: "select flags timestamps = nths timestamps A" "select flags vals = nths vals A"
    "select (map Not flags) timestamps = nths timestamps (- A)"
    "select (map Not flags) vals = nths vals (- A)"
    using select_nths [OF len(1)] select_nths [OF len(2)]
      select_not_nths [OF len(1)] select_not_nths [OF len(2)]
    by (simp_all add: A1 A2)
  have aligned: "length (select flags timestamps) = length (select flags vals)"
    "length (select (map Not flags) timestamps) = length (select (map Not flags) vals)"
    by (rule length_select_same [OF assms(1)])+
  have total: "length (select flags timestamps) + length (select (map Not flags) timestamps) =
      length timestamps"
    using len(1) by (rule length_select_split)
  have order: "subseq (zip (select flags timestamps) (select flags vals)) (zip timestamps vals)"
    "subseq (zip (select (map Not flags) timestamps) (select (map Not flags) vals))
       (zip timestamps vals)"
    by (simp_all add: zip_select subseq_select)
  have parts: "mset (zip (select flags timestamps) (select flags vals)) +
      mset (zip (select (map Not flags) timestamps) (select (map Not flags) vals)) =
      mset (zip timestamps vals)"
    using mset_select_split [OF lenz] by (simp add: zip_select)
  show ?thesis
    unfolding split Let_def A_def [symmetric]
    using idx aligned total order parts by blast
qed

theorem C2_split_partitions_witness:
  "split_data_by_period px
     [Txt ''2024-01-01 06:45'', Txt ''2024-01-01 07:00'', Txt ''2024-01-06 12:00'']
     [Some 1.5, None, Some 3] =
   Inr (([Txt ''2024-01-01 07:00''], [None]),
        ([Txt ''2024-01-01 06:45'', Txt ''2024-01-06 12:00''], [Some 1.5, Some 3]))"
proof -
  let ?ts = "[Txt ''2024-01-01 06:45'', Txt ''2024-01-01 07:00'', Txt ''2024-01-06 12:00'']"
  let ?vs = "[Some 1.5, None, Some (3::real)]"
  have a: "length ?ts = length ?vs" by simp
  have b: "\<forall>c \<in> set ?ts. to_datetime px ?ts c \<noteq> None"
    by (simp add: px_def sample_to_datetime_def sample_format_def sample_dates_def)
  from C2_split_partitions [OF a b] obtain pt pv ot ov
    where "split_data_by_period px ?ts ?vs = Inr ((pt, pv), (ot, ov))"
    by blast
  moreover have "split_data_by_period px ?ts ?vs =
      Inr (([Txt ''2024-01-01 07:00''], [None]),
           ([Txt ''2024-01-01 06:45'', Txt ''2024-01-06 12:00''], [Some 1.5, Some 3]))"
    by (simp add: split_data_by_period_def to_datetime_series_def px_def sample_to_datetime_def
          sample_format_def sample_dates_def weekday_def hour_def
          civil_def days_from_civil_def ns_per_day_def ns_per_hour_def)
  ultimately show ?thesis by simp
qed


subsection \<open>Locators stay inside the sheet\<close>

lemma find_upt_Some: "find p [0..<n] = Some c \<Longrightarrow> c < n \<and> p c"
  by (auto simp add: find_Some_iff)

lemma find_consumption_column_Inr:
  assumes "find_consumption_column P g consumption_type = Inr vc"
  shows "2 \<le> nrows g \<and> (\<exists>h. find_header_row P g = Some h) \<and> vc < ncols g"
  using assms
  by (auto simp add: find_consumption_column_def split: if_splits option.splits
      dest: find_upt_Some)

lemma column0_fallback_fst: "fst (column0_fallback P g) = 0"
  by (simp add: column0_fallback_def Let_def)

lemma find_timestamp_column_in_range:
  assumes "find_consumption_column P g consumption_type = Inr vc"
  shows "find_timestamp_column P g < ncols g"
proof -
  from find_consumption_column_Inr [OF assms]
  obtain h where h: "find_header_row P g = Some h" and vc: "vc < ncols g"
    by blast
  show ?thesis
  proof (cases "find (\<lambda>col. \<not> isna P (cell g h col) \<and>
                   py_in ''date'' (lower (str P (cell g h col)))) [0..<ncols g]")
    case (Some col)
    with h find_upt_Some [OF Some] show ?thesis
      by (simp add: find_timestamp_column_def find_timestamp_column_log_def)
  next
    case None
    note no_date = None
    show ?thesis
    proof (cases "find (\<lambda>col. count_parsed P g (find_data_start_row P g) col \<ge> 3)
                     [0..<min 4 (ncols g)]")
      case (Some col)
      with h no_date find_upt_Some [OF Some] show ?thesis
        by (simp add: find_timestamp_column_def find_timestamp_column_log_def Let_def)
    next
      case None
      note no_data = None
      show ?thesis
      proof (cases "find_consumption_column P g ''MEASURED ACTIVE CONSUMPTION''")
        case (Inl e)
        with h no_date no_data vc show ?thesis
          by (simp add: find_timestamp_column_def find_timestamp_column_log_def Let_def
              column0_fallback_fst)
      next
        case (Inr cc)
        from find_consumption_column_Inr [OF Inr] have "cc < ncols g" by blast
        with h no_date no_data vc Inr show ?thesis
          by (auto simp add: find_timestamp_column_def find_timestamp_column_log_def Let_def
              column0_fallback_fst)
      qed
    qed
  qed
qed


subsection \<open>What the extractor returns\<close>

lemma column_slice_to_end: "column_slice g d (nrows g) col = map (\<lambda>r. cell g r col) [d..<nrows g]"
  by (simp add: column_slice_def)

lemma extract_data_rows:
  assumes "find_consumption_column P g consumption_type = Inr vc"
  shows "extract_data_from_excel P g config consumption_type =
           Inr (map (\<lambda>r. cell g r (find_timestamp_column P g)) (data_region_rows P g config),
                map (\<lambda>r. to_numeric P (cell g r vc)) (data_region_rows P g config))"
proof -
  let ?tc = "find_timestamp_column P g"
  let ?rows = "[find_data_start_row P g..<nrows g]"
  let ?keep = "\<lambda>r. keeps P config (timestamp_series P g) (cell g r ?tc)"
  let ?ts = "map (\<lambda>r. cell g r ?tc) ?rows"
  let ?vs = "map (\<lambda>r. to_numeric P (cell g r vc)) ?rows"
  have tc: "?tc < ncols g"
    using assms by (rule find_timestamp_column_in_range)
  have valid: "(case start_date config of
                  None \<Rightarrow> map (\<lambda>v. True) ?ts
                | Some sd \<Rightarrow> map (\<lambda>t. stamp_ge t sd) (to_datetime_coerce P ?ts)) =
               map ?keep ?rows"
    by (simp add: keeps_def to_datetime_coerce_def timestamp_series_def comp_def
        split: option.splits)
  have ts: "select (map ?keep ?rows) ?ts = map (\<lambda>r. cell g r ?tc) (filter ?keep ?rows)"
    by (rule select_map)
  have vs: "select (map ?keep ?rows) ?vs = map (\<lambda>r. to_numeric P (cell g r vc)) (filter ?keep ?rows)"
    by (rule select_map)
  show ?thesis
    using assms tc
    by (simp add: extract_data_from_excel_def Let_def column_slice_to_end valid ts vs
        data_region_rows_def comp_def)
qed

lemma create_output_dataframe_aligned:
  "map csv_date (create_output_dataframe (map f rows) (map h rows) ean mapping) =
     map (\<lambda>r. Some (f r)) rows \<and>
   map csv_value (create_output_dataframe (map f rows) (map h rows) ean mapping) = map h rows \<and>
   length (create_output_dataframe (map f rows) (map h rows) ean mapping) = length rows"
proof (intro conjI)
  show "map csv_date (create_output_dataframe (map f rows) (map h rows) ean mapping) =
      map (\<lambda>r. Some (f r)) rows"
    by (rule nth_equalityI) (simp_all add: create_output_dataframe_def)
  show "map csv_value (create_output_dataframe (map f rows) (map h rows) ean mapping) =
      map h rows"
    by (rule nth_equalityI) (simp_all add: create_output_dataframe_def)
  show "length (create_output_dataframe (map f rows) (map h rows) ean mapping) = length rows"
    by (simp add: create_output_dataframe_def)
qed

lemma data_region_rows_all:
  "start_date config = None \<Longrightarrow>
   data_region_rows P g config = [find_data_start_row P g..<nrows g]"
  by (simp add: data_region_rows_def keeps_def)


subsection \<open>C4: one output record for each row of the data region\<close>

text \<open>
  C4. Let the sheet be valid for extraction: the value column with the requested label is
  found. Then extraction succeeds, and the output frame built from what it returns has one
  record for each row from the data-start row to the end of the sheet that the optional start
  date keeps (with no start date: \<open>nrows\<close> minus the data-start row records). The value of
  each record is the coerced value cell of its row, so a cell that fails numeric coercion
  stays in the output as the missing marker \<open>None\<close>.
\<close>

theorem C4_row_count_preserved:
  assumes "find_consumption_column P g consumption_type = Inr vc"
  shows "\<exists>timestamps vals.
           extract_data_from_excel P g config consumption_type = Inr (timestamps, vals) \<and>
           length (create_output_dataframe timestamps vals ean mapping) =
             length (data_region_rows P g config) \<and>
           (start_date config = None \<longrightarrow>
              length (create_output_dataframe timestamps vals ean mapping) =
                nrows g - find_data_start_row P g) \<and>
           map csv_date (create_output_dataframe timestamps vals ean mapping) =
             map (\<lambda>r. Some (cell g r (find_timestamp_column P g))) (data_region_rows P g config) \<and>
           map csv_value (create_output_dataframe timestamps vals ean mapping) =
             map (\<lambda>r. to_numeric P (cell g r vc)) (data_region_rows P g config) \<and>
           (\<forall>i < length (data_region_rows P g config).
              to_numeric P (cell g (data_region_rows P g config ! i) vc) = None \<longrightarrow>
              csv_value (create_output_dataframe timestamps vals ean mapping ! i) = None)"
proof -
  let ?rows = "data_region_rows P g config"
  let ?ts = "map (\<lambda>r. cell g r (find_timestamp_column P g)) ?rows"
  let ?vs = "map (\<lambda>r. to_numeric P (cell g r vc)) ?rows"
  let ?out = "create_output_dataframe ?ts ?vs ean mapping"
  have ex: "extract_data_from_excel P g config consumption_type = Inr (?ts, ?vs)"
    using assms by (rule extract_data_rows)
  have out: "map csv_date ?out = map (\<lambda>r. Some (cell g r (find_timestamp_column P g))) ?rows"
    "map csv_value ?out = ?vs" "length ?out = length ?rows"
    using create_output_dataframe_aligned [of "\<lambda>r. cell g r (find_timestamp_column P g)" ?rows
        "\<lambda>r. to_numeric P (cell g r vc)" ean mapping]
    by simp_all
  have all: "start_date config = None \<longrightarrow> length ?out = nrows g - find_data_start_row P g"
  proof
    assume "start_date config = None"
    then have "length ?rows = nrows g - find_data_start_row P g"
      by (simp add: data_region_rows_all)
    with out(3) show "length ?out = nrows g - find_data_start_row P g"
      by simp
  qed
  have missing: "\<forall>i < length ?rows. to_numeric P (cell g (?rows ! i) vc) = None \<longrightarrow>
      csv_value (?out ! i) = None"
  proof (intro allI impI)
    fix i
    assume i: "i < length ?rows" and none: "to_numeric P (cell g (?rows ! i) vc) = None"
    have "csv_value (?out ! i) = map csv_value ?out ! i"
      using i out(3) by simp
    also have "\<dots> = ?vs ! i" by (simp only: out(2))
    also have "\<dots> = None" using i none by simp
    finally show "csv_value (?out ! i) = None" .
  qed
  show ?thesis
    by (intro exI conjI) (rule ex out all missing)+
qed


subsection \<open>C5: the start-date filter\<close>



subsection \<open>The sample sheets, evaluated\<close>

lemma sheet_labelled_value_column:
  "find_consumption_column px sheet_labelled ''MEASURED ACTIVE CONSUMPTION'' = Inr 2"
  by code_simp

lemma sheet_labelled_rows: "data_region_rows px sheet_labelled DEFAULT_CONFIG = [3, 4, 5, 6, 7]"
  by code_simp

lemma sheet_labelled_values:
  "map (\<lambda>r. to_numeric px (cell sheet_labelled r 2)) [3, 4, 5, 6, 7] =
     [Some 1.5, Some 2, Some 0.25, None, Some 3]"
  by code_simp


lemma sample_parses:
  "to_datetime px
     [Txt ''2024-01-01 06:45'', Txt ''2024-01-01 07:00'', Txt ''soon'',
      Txt ''2024-01-02 08:15'', Txt ''2024-01-06 12:00'']
     (Txt ''2024-01-01 07:00'') = Some (TS (civil 2024 1 1 7 0))"
  "to_datetime px
     [Txt ''2024-01-01 06:45'', Txt ''2024-01-01 07:00'', Txt ''soon'',
      Txt ''2024-01-02 08:15'', Txt ''2024-01-06 12:00'']
     (Txt ''2024-01-01 06:45'') = Some (TS (civil 2024 1 1 6 45))"
  "to_datetime px
     [Txt ''2024-01-01 06:45'', Txt ''2024-01-01 07:00'', Txt ''soon'',
      Txt ''2024-01-02 08:15'', Txt ''2024-01-06 12:00'']
     (Txt ''soon'') = None"
  by (simp_all add: px_def sample_to_datetime_def sample_format_def sample_dates_def)

theorem C4_row_count_preserved_witness:
  "find_consumption_column px sheet_labelled ''MEASURED ACTIVE CONSUMPTION'' = Inr 2 \<and>
   nrows sheet_labelled - find_data_start_row px sheet_labelled = 5 \<and>
   (\<exists>timestamps vals.
      extract_data_from_excel px sheet_labelled DEFAULT_CONFIG ''MEASURED ACTIVE CONSUMPTION'' =
        Inr (timestamps, vals) \<and>
      length (create_output_dataframe timestamps vals ''541448911004090123''
                (record_of ''src'' ''var'')) = 5 \<and>
      map csv_value (create_output_dataframe timestamps vals ''541448911004090123''
                       (record_of ''src'' ''var'')) =
        [Some 1.5, Some 2, Some 0.25, None, Some 3])"
proof -
  have n: "nrows sheet_labelled - find_data_start_row px sheet_labelled = 5"
    by code_simp
  from C4_row_count_preserved [OF sheet_labelled_value_column, of DEFAULT_CONFIG
      "''541448911004090123''" "record_of ''src'' ''var''"]
  obtain timestamps vals where
    "extract_data_from_excel px sheet_labelled DEFAULT_CONFIG ''MEASURED ACTIVE CONSUMPTION'' =
       Inr (timestamps, vals)"
    "length (create_output_dataframe timestamps vals ''541448911004090123''
       (record_of ''src'' ''var'')) = length (data_region_rows px sheet_labelled DEFAULT_CONFIG)"
    "map csv_value (create_output_dataframe timestamps vals ''541448911004090123''
       (record_of ''src'' ''var'')) =
     map (\<lambda>r. to_numeric px (cell sheet_labelled r 2))
       (data_region_rows px sheet_labelled DEFAULT_CONFIG)"
    by blast
  then show ?thesis
    unfolding sheet_labelled_rows sheet_labelled_values
    using sheet_labelled_value_column n
    by simp
qed


subsection \<open>C9: unparseable timestamps in the two paths\<close>

lemma create_output_dataframe_dates:
  assumes "length timestamps = length vals"
  shows "map csv_date (create_output_dataframe timestamps vals ean mapping) =
         map Some timestamps"
  using assms by (intro nth_equalityI) (simp_all add: create_output_dataframe_def)

lemma extract_data_lengths:
  assumes "extract_data_from_excel P g config consumption_type = Inr (timestamps, vals)"
  shows "length timestamps = length vals"
proof (cases "find_consumption_column P g consumption_type")
  case (Inl e)
  with assms show ?thesis by (simp add: extract_data_from_excel_def)
next
  case (Inr vc)
  from extract_data_rows [OF Inr, of config] assms show ?thesis by auto
qed

lemma split_data_by_period_Inr:
  assumes "split_data_by_period P timestamps vals = Inr r"
  shows "\<forall>c \<in> set timestamps. to_datetime P timestamps c \<noteq> None"
proof (rule ccontr)
  assume "\<not> (\<forall>c \<in> set timestamps. to_datetime P timestamps c \<noteq> None)"
  then obtain c where "c \<in> set timestamps" "to_datetime P timestamps c = None" by blast
  then have "those (map (to_datetime P timestamps) timestamps) = None" by (rule those_map_None)
  with assms show False by (simp add: split_data_by_period_def to_datetime_series_def)
qed

text \<open>
  C9. Let validation and identifier extraction pass and let the extracted series hold a
  timestamp \<open>c\<close> that does not parse (that \<^verbatim>\<open>pd.to_datetime\<close> on the series does not read). Then the splitter raises on the series (the error of
  \<^verbatim>\<open>pd.to_datetime\<close>, a \<^verbatim>\<open>ValueError\<close>); when the identifier has both tariff variants the
  conversion of the sheet ends in a \<^verbatim>\<open>ValueError\<close> and writes nothing; when it has not, and
  its mapping resolves, the conversion writes one file whose dates are the extracted timestamps
  as they are, \<open>c\<close> among them. In general the splitter returns only if every timestamp of its
  series parses.
\<close>

theorem C9_unparseable_timestamp_paths:
  assumes "validate_excel_structure P g config = Inr ()"
    and "extract_ean_from_excel P g config = Inr ean"
    and "extract_data_from_excel P g config consumption_type = Inr (timestamps, vals)"
    and "c \<in> set timestamps" and "to_datetime P timestamps c = None"
  shows "split_data_by_period P timestamps vals = Inl DateParseError \<and>
         is_ValueError DateParseError \<and>
         (has_peak_offpeak_variants ean m \<longrightarrow>
            parse_renewgy_excel_to_csv P g m config consumption_type =
              Inl (InvalidDataFormat DateParseError) \<and>
            is_ValueError (InvalidDataFormat DateParseError)) \<and>
         (\<not> has_peak_offpeak_variants ean m \<and> find_ean_mapping ean m None = Inr mapping \<longrightarrow>
            (\<exists>records.
               parse_renewgy_excel_to_csv P g m config consumption_type =
                 Inr [Written [] records] \<and>
               map csv_date records = map Some timestamps \<and>
               Some c \<in> set (map csv_date records))) \<and>
         ((\<exists>r. split_data_by_period P series_t series_v = Inr r) \<longrightarrow>
            (\<forall>t \<in> set series_t. to_datetime P series_t t \<noteq> None))"
proof -
  have split: "split_data_by_period P timestamps vals = Inl DateParseError"
    using those_map_None [OF assms(4), of "to_datetime P timestamps", OF assms(5)]
    by (simp add: split_data_by_period_def to_datetime_series_def)
  have dual: "has_peak_offpeak_variants ean m \<longrightarrow>
      parse_renewgy_excel_to_csv P g m config consumption_type =
        Inl (InvalidDataFormat DateParseError)"
    using assms(1-3) split
    by (simp add: parse_renewgy_excel_to_csv_def convert_dual_def reraise_def)
  have len: "length timestamps = length vals"
    using assms(3) by (rule extract_data_lengths)
  have dates: "map csv_date (create_output_dataframe timestamps vals ean mapping) =
      map Some timestamps"
    using len by (rule create_output_dataframe_dates)
  have single: "\<not> has_peak_offpeak_variants ean m \<and> find_ean_mapping ean m None = Inr mapping \<longrightarrow>
      (\<exists>records.
         parse_renewgy_excel_to_csv P g m config consumption_type = Inr [Written [] records] \<and>
         map csv_date records = map Some timestamps \<and>
         Some c \<in> set (map csv_date records))"
  proof
    assume a: "\<not> has_peak_offpeak_variants ean m \<and> find_ean_mapping ean m None = Inr mapping"
    have "parse_renewgy_excel_to_csv P g m config consumption_type =
        Inr [Written [] (create_output_dataframe timestamps vals ean mapping)]"
      using assms(1-3) a
      by (simp add: parse_renewgy_excel_to_csv_def convert_single_def)
    moreover have "Some c \<in> set (map csv_date (create_output_dataframe timestamps vals ean mapping))"
      using assms(4) by (simp only: dates) simp
    ultimately show "\<exists>records.
         parse_renewgy_excel_to_csv P g m config consumption_type = Inr [Written [] records] \<and>
         map csv_date records = map Some timestamps \<and>
         Some c \<in> set (map csv_date records)"
      using dates by blast
  qed
  have only: "(\<exists>r. split_data_by_period P series_t series_v = Inr r) \<longrightarrow>
      (\<forall>t \<in> set series_t. to_datetime P series_t t \<noteq> None)"
    using split_data_by_period_Inr by blast
  from split dual single only show ?thesis
    by simp
qed

lemma sheet_labelled_valid: "validate_excel_structure px sheet_labelled DEFAULT_CONFIG = Inr ()"
  by code_simp

lemma sheet_labelled_ean:
  "extract_ean_from_excel px sheet_labelled DEFAULT_CONFIG = Inr ''541448911004090123''"
  by code_simp

lemma sheet_labelled_extract:
  "extract_data_from_excel px sheet_labelled DEFAULT_CONFIG ''MEASURED ACTIVE CONSUMPTION'' =
   Inr ([Txt ''2024-01-01 06:45'', Txt ''2024-01-01 07:00'', Txt ''soon'',
         Txt ''2024-01-02 08:15'', Txt ''2024-01-06 12:00''],
        [Some 1.5, Some 2, Some 0.25, None, Some 3])"
  by code_simp

lemma sample_tables:
  "has_peak_offpeak_variants ''541448911004090123'' table_dual"
  "\<not> has_peak_offpeak_variants ''541448911004090123'' table_single"
  "find_ean_mapping ''541448911004090123'' table_single None = Inr (record_of ''src'' ''var'')"
  by (simp_all add: has_peak_offpeak_variants_def has_key_def table_dual_def table_single_def
      find_ean_mapping_def)

theorem C9_unparseable_timestamp_paths_witness:
  "validate_excel_structure px sheet_labelled DEFAULT_CONFIG = Inr () \<and>
   to_datetime px
     [Txt ''2024-01-01 06:45'', Txt ''2024-01-01 07:00'', Txt ''soon'',
      Txt ''2024-01-02 08:15'', Txt ''2024-01-06 12:00'']
     (Txt ''soon'') = None \<and>
   parse_renewgy_excel_to_csv px sheet_labelled table_dual DEFAULT_CONFIG
     ''MEASURED ACTIVE CONSUMPTION'' = Inl (InvalidDataFormat DateParseError) \<and>
   (\<exists>records.
      parse_renewgy_excel_to_csv px sheet_labelled table_single DEFAULT_CONFIG
        ''MEASURED ACTIVE CONSUMPTION'' = Inr [Written [] records] \<and>
      Some (Txt ''soon'') \<in> set (map csv_date records))"
proof -
  have mem: "Txt ''soon'' \<in> set [Txt ''2024-01-01 06:45'', Txt ''2024-01-01 07:00'', Txt ''soon'',
      Txt ''2024-01-02 08:15'', Txt ''2024-01-06 12:00'']"
    by simp
  note inst = C9_unparseable_timestamp_paths [OF sheet_labelled_valid sheet_labelled_ean
      sheet_labelled_extract mem sample_parses(3)]
  from inst [of table_dual] have dual:
    "parse_renewgy_excel_to_csv px sheet_labelled table_dual DEFAULT_CONFIG
       ''MEASURED ACTIVE CONSUMPTION'' = Inl (InvalidDataFormat DateParseError)"
    using sample_tables(1) by blast
  from inst [of table_single "record_of ''src'' ''var''"] have single:
    "\<exists>records.
       parse_renewgy_excel_to_csv px sheet_labelled table_single DEFAULT_CONFIG
         ''MEASURED ACTIVE CONSUMPTION'' = Inr [Written [] records] \<and>
       Some (Txt ''soon'') \<in> set (map csv_date records)"
    using sample_tables(2,3) by blast
  from sheet_labelled_valid sample_parses(3) dual single show ?thesis
    by simp
qed


subsection \<open>C10: the tokens of the content heuristic\<close>

lemma find_upt_None: "(\<forall>c<n. \<not> p c) \<Longrightarrow> find p [0..<n] = None"
  by (simp add: find_None_iff)

lemma length_filter_weaker:
  "(\<And>x. p x \<Longrightarrow> q x) \<Longrightarrow> length (filter p xs) \<le> length (filter q xs)"
  by (induction xs) auto

lemma find_header_row_ncols:
  assumes "find_header_row P g = Some h"
  shows "0 < ncols g"
proof (rule ccontr)
  assume "\<not> 0 < ncols g"
  then have "row g h = []" by (simp add: row_def)
  moreover from assms have "row_has P g ''role description'' h"
    by (auto simp add: find_header_row_def dest: find_upt_Some)
  ultimately show False by (simp add: row_has_def)
qed

lemma count_headerless_zero:
  assumes "\<forall>v \<in> set (column_slice g d (d + 3) col). \<not> year_dash_or_colon (str P v)"
  shows "count_headerless P g d col = 0"
  using assms by (simp add: count_headerless_def filter_empty_conv)

lemma count_parsed_zero:
  assumes "\<forall>v \<in> set (column_slice g d (d + 5) col). \<not> year_or_colon (str P v)"
  shows "count_parsed P g d col = 0"
  using assms by (simp add: count_parsed_def filter_empty_conv)

lemma column0_fallback_plain:
  assumes "0 < ncols g"
    and "\<forall>col \<in> set [0..<min 4 (ncols g)].
           \<forall>v \<in> set (column_slice g (find_data_start_row P g) (find_data_start_row P g + 5) col).
             \<not> year_or_colon (str P v)"
  shows "column0_fallback P g = (0, WarnColumn0)"
proof (cases "find_data_start_row P g < nrows g")
  case False
  then show ?thesis by (simp add: column0_fallback_def)
next
  case True
  let ?d = "find_data_start_row P g"
  from True have "cell g ?d 0 \<in> set (column_slice g ?d (?d + 5) 0)"
    by (auto simp add: column_slice_def intro!: image_eqI [where x = "find_data_start_row P g"])
  moreover from assms(1) have "0 \<in> set [0..<min 4 (ncols g)]" by simp
  ultimately have "\<not> year_or_colon (str P (cell g ?d 0))"
    using assms(2) by blast
  then show ?thesis by (simp add: column0_fallback_def)
qed

text \<open>
  C10, as stated, concludes from timestamps without these substrings that the heuristic
  accepts no column. The heuristic samples the first four columns, whatever they hold. In
  \<open>sheet_negative\<close>, which has no header row, no timestamp of column 0 contains a year from
  2022 to 2025, a colon or a dash, and the values of column 1 are negative: their minus sign is
  a dash, and the heuristic accepts column 1 as the timestamp column.
\<close>

theorem C10_negative_values_counterexample:
  "find_header_row px sheet_negative = None \<and>
   map (\<lambda>v. year_dash_or_colon (str px v))
     (column_slice sheet_negative 0 (nrows sheet_negative) 0) =
     [False, False, False, False, False, False, False] \<and>
   find_timestamp_column_log px sheet_negative = (1, FoundByHeuristic 1)"
proof (intro conjI)
  show "find_header_row px sheet_negative = None" by code_simp
  show "map (\<lambda>v. year_dash_or_colon (str px v))
     (column_slice sheet_negative 0 (nrows sheet_negative) 0) =
     [False, False, False, False, False, False, False]" by code_simp
  show "find_timestamp_column_log px sheet_negative = (1, FoundByHeuristic 1)" by code_simp
qed

text \<open>
  C10, amended. In both branches of the content heuristic a sampled cell is counted only if
  its string form contains \<open>2022\<close>, \<open>2023\<close>, \<open>2024\<close>, \<open>2025\<close> or a colon, or also a dash
  in the branch without a header row: the count of a column is bounded by the number of
  sampled cells with such a substring. So when no sampled cell of the first four columns, a
  timestamp or any other cell, has such a substring, the heuristic accepts no column: without
  a header row the locator falls to the default column 0 with its warning; with a header row
  that has no "date" label it goes on to the column left of the consumption column, and to
  the default column 0 with its warning when that column is not found or is column 0.
\<close>

theorem C10_heuristic_needs_tokens:
  "year_or_colon s =
     (py_in ''2022'' s \<or> py_in ''2023'' s \<or> py_in ''2024'' s \<or> py_in ''2025'' s \<or> py_in '':'' s) \<and>
   year_dash_or_colon s = (year_or_colon s \<or> py_in ''-'' s) \<and>
   count_headerless P g d col \<le>
     length (filter (\<lambda>v. year_dash_or_colon (str P v)) (column_slice g d (d + 3) col)) \<and>
   count_parsed P g d col \<le>
     length (filter (\<lambda>v. year_or_colon (str P v)) (column_slice g d (d + 5) col)) \<and>
   (find_header_row P g = None \<and>
    (\<forall>col \<in> set [0..<min 4 (ncols g)].
       \<forall>v \<in> set (column_slice g (find_data_start_row P g) (find_data_start_row P g + 3) col).
         \<not> year_dash_or_colon (str P v)) \<longrightarrow>
    find_timestamp_column_log P g = (0, WarnHeaderlessColumn0)) \<and>
   (find_header_row P g = Some h \<and>
    (\<forall>col \<in> set [0..<ncols g].
       \<not> (\<not> isna P (cell g h col) \<and> py_in ''date'' (lower (str P (cell g h col))))) \<and>
    (\<forall>col \<in> set [0..<min 4 (ncols g)].
       \<forall>v \<in> set (column_slice g (find_data_start_row P g) (find_data_start_row P g + 5) col).
         \<not> year_or_colon (str P v)) \<longrightarrow>
    find_timestamp_column_log P g =
      (case find_consumption_column P g ''MEASURED ACTIVE CONSUMPTION'' of
         Inr cc \<Rightarrow> if 0 < cc then (cc - 1, InferredFromConsumption (cc - 1)) else (0, WarnColumn0)
       | Inl e \<Rightarrow> (0, WarnColumn0)))"
proof (intro conjI impI)
  show "year_or_colon s =
     (py_in ''2022'' s \<or> py_in ''2023'' s \<or> py_in ''2024'' s \<or> py_in ''2025'' s \<or> py_in '':'' s)"
    by (auto simp add: year_or_colon_def)
  show "year_dash_or_colon s = (year_or_colon s \<or> py_in ''-'' s)"
    by (auto simp add: year_or_colon_def year_dash_or_colon_def)
  show "count_headerless P g d col \<le>
     length (filter (\<lambda>v. year_dash_or_colon (str P v)) (column_slice g d (d + 3) col))"
    unfolding count_headerless_def
    by (rule length_filter_weaker) simp
  show "count_parsed P g d col \<le>
     length (filter (\<lambda>v. year_or_colon (str P v)) (column_slice g d (d + 5) col))"
    unfolding count_parsed_def
    by (rule length_filter_weaker) simp
next
  assume a: "find_header_row P g = None \<and>
    (\<forall>col \<in> set [0..<min 4 (ncols g)].
       \<forall>v \<in> set (column_slice g (find_data_start_row P g) (find_data_start_row P g + 3) col).
         \<not> year_dash_or_colon (str P v))"
  then have "\<forall>col < min 4 (ncols g). count_headerless P g (find_data_start_row P g) col = 0"
    by (auto intro!: count_headerless_zero)
  then have "find (\<lambda>col. count_headerless P g (find_data_start_row P g) col \<ge> 2)
               [0..<min 4 (ncols g)] = None"
    by (intro find_upt_None) simp
  with a show "find_timestamp_column_log P g = (0, WarnHeaderlessColumn0)"
    by (simp add: find_timestamp_column_log_def Let_def)
next
  assume a: "find_header_row P g = Some h \<and>
    (\<forall>col \<in> set [0..<ncols g].
       \<not> (\<not> isna P (cell g h col) \<and> py_in ''date'' (lower (str P (cell g h col))))) \<and>
    (\<forall>col \<in> set [0..<min 4 (ncols g)].
       \<forall>v \<in> set (column_slice g (find_data_start_row P g) (find_data_start_row P g + 5) col).
         \<not> year_or_colon (str P v))"
  then have h: "find_header_row P g = Some h" by blast
  have nodate: "find (\<lambda>col. \<not> isna P (cell g h col) \<and>
                   py_in ''date'' (lower (str P (cell g h col)))) [0..<ncols g] = None"
    using a by (intro find_upt_None) auto
  from a have "\<forall>col < min 4 (ncols g). count_parsed P g (find_data_start_row P g) col = 0"
    by (auto intro!: count_parsed_zero)
  then have nodata: "find (\<lambda>col. count_parsed P g (find_data_start_row P g) col \<ge> 3)
               [0..<min 4 (ncols g)] = None"
    by (intro find_upt_None) simp
  have fb: "column0_fallback P g = (0, WarnColumn0)"
    using find_header_row_ncols [OF h] a by (intro column0_fallback_plain) blast+
  show "find_timestamp_column_log P g =
      (case find_consumption_column P g ''MEASURED ACTIVE CONSUMPTION'' of
         Inr cc \<Rightarrow> if 0 < cc then (cc - 1, InferredFromConsumption (cc - 1)) else (0, WarnColumn0)
       | Inl e \<Rightarrow> (0, WarnColumn0))"
    using h nodate nodata fb
    by (simp add: find_timestamp_column_log_def Let_def split: sum.splits)
qed

lemma sheet_slashes_facts:
  "find_header_row px sheet_slashes = None"
  "\<forall>col \<in> set [0..<min 4 (ncols sheet_slashes)].
     \<forall>v \<in> set (column_slice sheet_slashes (find_data_start_row px sheet_slashes)
                  (find_data_start_row px sheet_slashes + 3) col).
       \<not> year_dash_or_colon (str px v)"
  by code_simp+

lemma sheet_dashes_facts:
  "find_header_row px sheet_dashes = Some 1"
  "\<forall>col \<in> set [0..<ncols sheet_dashes].
     \<not> (\<not> isna px (cell sheet_dashes 1 col) \<and>
        py_in ''date'' (lower (str px (cell sheet_dashes 1 col))))"
  "\<forall>col \<in> set [0..<min 4 (ncols sheet_dashes)].
     \<forall>v \<in> set (column_slice sheet_dashes (find_data_start_row px sheet_dashes)
                  (find_data_start_row px sheet_dashes + 5) col).
       \<not> year_or_colon (str px v)"
  "find_consumption_column px sheet_dashes ''MEASURED ACTIVE CONSUMPTION'' = Inr 2"
  by code_simp+

theorem C10_heuristic_needs_tokens_witness:
  "find_header_row px sheet_slashes = None \<and>
   find_timestamp_column_log px sheet_slashes = (0, WarnHeaderlessColumn0) \<and>
   find_header_row px sheet_dashes = Some 1 \<and>
   find_timestamp_column_log px sheet_dashes = (1, InferredFromConsumption 1)"
proof -
  from C10_heuristic_needs_tokens [where P = px and g = sheet_slashes]
    sheet_slashes_facts
  have a: "find_timestamp_column_log px sheet_slashes = (0, WarnHeaderlessColumn0)"
    by blast
  from C10_heuristic_needs_tokens [where P = px and g = sheet_dashes and h = 1]
    sheet_dashes_facts(1-3)
  have "find_timestamp_column_log px sheet_dashes =
      (case find_consumption_column px sheet_dashes ''MEASURED ACTIVE CONSUMPTION'' of
         Inr cc \<Rightarrow> if 0 < cc then (cc - 1, InferredFromConsumption (cc - 1)) else (0, WarnColumn0)
       | Inl e \<Rightarrow> (0, WarnColumn0))"
    by blast
  then have b: "find_timestamp_column_log px sheet_dashes = (1, InferredFromConsumption 1)"
    by (simp add: sheet_dashes_facts(4))
  from a b sheet_slashes_facts(1) sheet_dashes_facts(1) show ?thesis
    by simp
qed


subsection \<open>C6: the order of the resolutions of the timestamp column\<close>

lemma find_first_such: "first_such p n c \<Longrightarrow> find p [0..<n] = Some c"
  by (auto simp add: first_such_def find_Some_iff intro!: exI [of _ c])

text \<open>
  C6, as stated, lets the content heuristic accept a column when a majority of its sampled
  cells contain a year token or a \<open>:\<close> or \<open>-\<close> separator. In \<open>sheet_dashes\<close> the header row
  is found and has no "date" label, so the first resolution fails; every sampled cell of
  column 0 contains a dash, so the heuristic as stated accepts column 0, whatever the size of
  the sample from 3 to 5 rows, and does not accept column 1. The source counts a dash only when
  there is no header row: here it counts nothing, and the locator returns column 1, the column
  left of the consumption column.
\<close>

theorem C6_dash_column_counterexample:
  "find_header_row px sheet_dashes = Some 1 \<and>
   find (\<lambda>col. \<not> isna px (cell sheet_dashes 1 col) \<and>
                py_in ''date'' (lower (str px (cell sheet_dashes 1 col))))
     [0..<ncols sheet_dashes] = None \<and>
   spec_heuristic_accepts 3 px sheet_dashes 0 \<and>
   spec_heuristic_accepts 4 px sheet_dashes 0 \<and>
   spec_heuristic_accepts 5 px sheet_dashes 0 \<and>
   \<not> spec_heuristic_accepts 3 px sheet_dashes 1 \<and>
   \<not> spec_heuristic_accepts 4 px sheet_dashes 1 \<and>
   \<not> spec_heuristic_accepts 5 px sheet_dashes 1 \<and>
   find_timestamp_column_log px sheet_dashes = (1, InferredFromConsumption 1) \<and>
   find_timestamp_column px sheet_dashes = 1"
proof (intro conjI)
  show "find_header_row px sheet_dashes = Some 1" by code_simp
  show "find (\<lambda>col. \<not> isna px (cell sheet_dashes 1 col) \<and>
                py_in ''date'' (lower (str px (cell sheet_dashes 1 col))))
     [0..<ncols sheet_dashes] = None" by code_simp
  show "spec_heuristic_accepts 3 px sheet_dashes 0" by code_simp
  show "spec_heuristic_accepts 4 px sheet_dashes 0" by code_simp
  show "spec_heuristic_accepts 5 px sheet_dashes 0" by code_simp
  show "\<not> spec_heuristic_accepts 3 px sheet_dashes 1" by code_simp
  show "\<not> spec_heuristic_accepts 4 px sheet_dashes 1" by code_simp
  show "\<not> spec_heuristic_accepts 5 px sheet_dashes 1" by code_simp
  show "find_timestamp_column_log px sheet_dashes = (1, InferredFromConsumption 1)" by code_simp
  show "find_timestamp_column px sheet_dashes = 1" by code_simp
qed

lemma timestamp_column_cases:
  "(let d = find_data_start_row P g;
        n4 = min 4 (ncols g);
        dated = (\<lambda>c. \<not> isna P (cell g h c) \<and> py_in ''date'' (lower (str P (cell g h c))));
        inferred = (\<lambda>k. find_consumption_column P g ''MEASURED ACTIVE CONSUMPTION'' = Inr k \<and> 0 < k);
        pattern0 = (d < nrows g \<and> \<not> isna P (cell g d 0) \<and> year_or_colon (str P (cell g d 0)))
    in (find_header_row P g = None \<longrightarrow>
          (first_such (\<lambda>c. 2 \<le> count_headerless P g d c) n4 col \<longrightarrow>
             find_timestamp_column_log P g = (col, FoundByHeuristic col)) \<and>
          ((\<forall>c \<in> set [0..<n4]. count_headerless P g d c < 2) \<longrightarrow>
             find_timestamp_column_log P g = (0, WarnHeaderlessColumn0))) \<and>
       (find_header_row P g = Some h \<longrightarrow>
          (first_such dated (ncols g) col \<longrightarrow>
             find_timestamp_column_log P g = (col, FoundDateHeader col (h + 1))) \<and>
          ((\<forall>c \<in> set [0..<ncols g]. \<not> dated c) \<longrightarrow>
             (first_such (\<lambda>c. 3 \<le> count_parsed P g d c) n4 col \<longrightarrow>
                find_timestamp_column_log P g = (col, FoundByDataAnalysis col)) \<and>
             ((\<forall>c \<in> set [0..<n4]. count_parsed P g d c < 3) \<longrightarrow>
                (inferred cc \<longrightarrow>
                   find_timestamp_column_log P g = (cc - 1, InferredFromConsumption (cc - 1))) \<and>
                ((\<forall>k. \<not> inferred k) \<longrightarrow>
                   (pattern0 \<longrightarrow> find_timestamp_column_log P g = (0, Column0DatePattern)) \<and>
                   (\<not> pattern0 \<longrightarrow> find_timestamp_column_log P g = (0, WarnColumn0)))))))"
proof -
  let ?d = "find_data_start_row P g"
  let ?n4 = "min 4 (ncols g)"
  let ?dated = "\<lambda>c. \<not> isna P (cell g h c) \<and> py_in ''date'' (lower (str P (cell g h c)))"
  let ?log = "find_timestamp_column_log P g"
  have headerless_hit: "?log = (col, FoundByHeuristic col)"
    if "find_header_row P g = None" "first_such (\<lambda>c. 2 \<le> count_headerless P g ?d c) ?n4 col"
    using that(1) find_first_such [OF that(2)]
    by (simp add: find_timestamp_column_log_def Let_def)
  have headerless_miss: "?log = (0, WarnHeaderlessColumn0)"
    if "find_header_row P g = None" "\<forall>c \<in> set [0..<?n4]. count_headerless P g ?d c < 2"
  proof -
    have "find (\<lambda>c. 2 \<le> count_headerless P g ?d c) [0..<?n4] = None"
      using that(2) by (intro find_upt_None) (auto simp add: not_le)
    with that(1) show ?thesis
      by (simp add: find_timestamp_column_log_def Let_def)
  qed
  have label: "?log = (col, FoundDateHeader col (h + 1))"
    if "find_header_row P g = Some h" "first_such ?dated (ncols g) col"
    using that(1) find_first_such [OF that(2)]
    by (simp add: find_timestamp_column_log_def)
  have nolabel: "find ?dated [0..<ncols g] = None" if "\<forall>c \<in> set [0..<ncols g]. \<not> ?dated c"
    using that by (intro find_upt_None) auto
  have data: "?log = (col, FoundByDataAnalysis col)"
    if "find_header_row P g = Some h" "\<forall>c \<in> set [0..<ncols g]. \<not> ?dated c"
      "first_such (\<lambda>c. 3 \<le> count_parsed P g ?d c) ?n4 col"
    using that(1) nolabel [OF that(2)] find_first_such [OF that(3)]
    by (simp add: find_timestamp_column_log_def Let_def)
  have nodata: "find (\<lambda>c. 3 \<le> count_parsed P g ?d c) [0..<?n4] = None"
    if "\<forall>c \<in> set [0..<?n4]. count_parsed P g ?d c < 3"
    using that by (intro find_upt_None) (auto simp add: not_le)
  have left: "?log = (cc - 1, InferredFromConsumption (cc - 1))"
    if "find_header_row P g = Some h" "\<forall>c \<in> set [0..<ncols g]. \<not> ?dated c"
      "\<forall>c \<in> set [0..<?n4]. count_parsed P g ?d c < 3"
      "find_consumption_column P g ''MEASURED ACTIVE CONSUMPTION'' = Inr cc \<and> 0 < cc"
    using that(1,4) nolabel [OF that(2)] nodata [OF that(3)]
    by (simp add: find_timestamp_column_log_def Let_def)
  have fallback: "?log = column0_fallback P g"
    if "find_header_row P g = Some h" "\<forall>c \<in> set [0..<ncols g]. \<not> ?dated c"
      "\<forall>c \<in> set [0..<?n4]. count_parsed P g ?d c < 3"
      "\<forall>k. \<not> (find_consumption_column P g ''MEASURED ACTIVE CONSUMPTION'' = Inr k \<and> 0 < k)"
    using that(1,4) nolabel [OF that(2)] nodata [OF that(3)]
    by (auto simp add: find_timestamp_column_log_def Let_def split: sum.splits)
  show ?thesis
    unfolding Let_def
    using headerless_hit headerless_miss label data left fallback
    by (auto simp add: column0_fallback_def Let_def)
qed


lemma year_or_colon_tokens:
  "year_or_colon s =
     (py_in ''2022'' s \<or> py_in ''2023'' s \<or> py_in ''2024'' s \<or> py_in ''2025'' s \<or>
                 py_in '':'' s)"
  by (auto simp add: year_or_colon_def)

lemma count_headerless_cells:
  "count_headerless P g d c =
     length (filter (\<lambda>r. \<not> isna P (cell g r c) \<and>
                ((py_in ''2022'' (str P (cell g r c)) \<or> py_in ''2023'' (str P (cell g r c)) \<or> py_in ''2024'' (str P (cell g r c)) \<or> py_in ''2025'' (str P (cell g r c)) \<or>
                 py_in '':'' (str P (cell g r c))) \<or>
                 py_in ''-'' (str P (cell g r c))))
          [d..<min (d + 3) (nrows g)])"
  by (auto simp add: count_headerless_def column_slice_def filter_map comp_def
      year_dash_or_colon_def intro!: arg_cong [where f = length] filter_cong)

lemma count_parsed_cells:
  "count_parsed P g d c =
     length (filter (\<lambda>r. \<not> isna P (cell g r c) \<and>
                (py_in ''2022'' (str P (cell g r c)) \<or> py_in ''2023'' (str P (cell g r c)) \<or> py_in ''2024'' (str P (cell g r c)) \<or> py_in ''2025'' (str P (cell g r c)) \<or>
                 py_in '':'' (str P (cell g r c))) \<and>
                parse_datetime P (str P (cell g r c)) \<noteq> None)
          [d..<min (d + 5) (nrows g)])"
  by (auto simp add: count_parsed_def column_slice_def filter_map comp_def
      year_or_colon_def intro!: arg_cong [where f = length] filter_cong)

text \<open>
  C6, amended. The locator first looks for the header row, a row among the first five with a
  cell containing "role description". Let \<open>d\<close> be the data-start row.

  Without a header row there are two resolutions: the first of the first four columns in
  which at least 2 of the cells of the rows \<open>d\<close> to \<open>d + 2\<close> are not empty and contain
  \<open>2022\<close>, \<open>2023\<close>, \<open>2024\<close>, \<open>2025\<close>, a colon or a dash; else column 0 with a warning.

  With a header row \<open>h\<close> the resolutions are tried in this order until one succeeds:
  (1) the first cell of the header row that is not empty and contains "date", whatever the
  case of its letters; (2) the first of the first four columns in which at least 3 of the
  cells of the rows \<open>d\<close> to \<open>d + 4\<close> are not empty, contain \<open>2022\<close>, \<open>2023\<close>, \<open>2024\<close>,
  \<open>2025\<close> or a colon, and parse as a datetime, a dash alone not being counted; (3) the column
  left of the column labelled "MEASURED ACTIVE CONSUMPTION", when that column is found and is
  not column 0; (4) column 0 when its cell at the data-start row is not empty and contains one
  of the years or a colon; (5) column 0 with a warning.
\<close>

theorem C6_timestamp_column_resolution:
  "(let d = find_data_start_row P g;
        n4 = min 4 (ncols g);
        loose = (\<lambda>c. length (filter (\<lambda>r. \<not> isna P (cell g r c) \<and>
                ((py_in ''2022'' (str P (cell g r c)) \<or> py_in ''2023'' (str P (cell g r c)) \<or> py_in ''2024'' (str P (cell g r c)) \<or> py_in ''2025'' (str P (cell g r c)) \<or>
                 py_in '':'' (str P (cell g r c))) \<or>
                 py_in ''-'' (str P (cell g r c))))
          [d..<min (d + 3) (nrows g)]));
        strict = (\<lambda>c. length (filter (\<lambda>r. \<not> isna P (cell g r c) \<and>
                (py_in ''2022'' (str P (cell g r c)) \<or> py_in ''2023'' (str P (cell g r c)) \<or> py_in ''2024'' (str P (cell g r c)) \<or> py_in ''2025'' (str P (cell g r c)) \<or>
                 py_in '':'' (str P (cell g r c))) \<and>
                parse_datetime P (str P (cell g r c)) \<noteq> None)
          [d..<min (d + 5) (nrows g)]));
        dated = (\<lambda>c. \<not> isna P (cell g h c) \<and> py_in ''date'' (lower (str P (cell g h c))));
        inferred = (\<lambda>k. find_consumption_column P g ''MEASURED ACTIVE CONSUMPTION'' = Inr k \<and> 0 < k);
        pattern0 = (d < nrows g \<and> \<not> isna P (cell g d 0) \<and>
     (py_in ''2022'' (str P (cell g d 0)) \<or> py_in ''2023'' (str P (cell g d 0)) \<or> py_in ''2024'' (str P (cell g d 0)) \<or> py_in ''2025'' (str P (cell g d 0)) \<or>
                 py_in '':'' (str P (cell g d 0))))
    in (find_header_row P g = None \<longrightarrow>
          (first_such (\<lambda>c. 2 \<le> loose c) n4 col \<longrightarrow>
             find_timestamp_column_log P g = (col, FoundByHeuristic col)) \<and>
          ((\<forall>c \<in> set [0..<n4]. loose c < 2) \<longrightarrow>
             find_timestamp_column_log P g = (0, WarnHeaderlessColumn0))) \<and>
       (find_header_row P g = Some h \<longrightarrow>
          (first_such dated (ncols g) col \<longrightarrow>
             find_timestamp_column_log P g = (col, FoundDateHeader col (h + 1))) \<and>
          ((\<forall>c \<in> set [0..<ncols g]. \<not> dated c) \<longrightarrow>
             (first_such (\<lambda>c. 3 \<le> strict c) n4 col \<longrightarrow>
                find_timestamp_column_log P g = (col, FoundByDataAnalysis col)) \<and>
             ((\<forall>c \<in> set [0..<n4]. strict c < 3) \<longrightarrow>
                (inferred cc \<longrightarrow>
                   find_timestamp_column_log P g = (cc - 1, InferredFromConsumption (cc - 1))) \<and>
                ((\<forall>k. \<not> inferred k) \<longrightarrow>
                   (pattern0 \<longrightarrow> find_timestamp_column_log P g = (0, Column0DatePattern)) \<and>
                   (\<not> pattern0 \<longrightarrow> find_timestamp_column_log P g = (0, WarnColumn0)))))))"
  using timestamp_column_cases [of P g h col cc]
  by (simp only: Let_def count_headerless_cells count_parsed_cells year_or_colon_tokens)

lemma sheet_headerless_hit:
  "find_header_row px sheet_headerless = None"
  "first_such (\<lambda>c. 2 \<le> length (filter (\<lambda>r. \<not> isna px (cell sheet_headerless r c) \<and>
                ((py_in ''2022'' (str px (cell sheet_headerless r c)) \<or> py_in ''2023'' (str px (cell sheet_headerless r c)) \<or> py_in ''2024'' (str px (cell sheet_headerless r c)) \<or> py_in ''2025'' (str px (cell sheet_headerless r c)) \<or>
                 py_in '':'' (str px (cell sheet_headerless r c))) \<or>
                 py_in ''-'' (str px (cell sheet_headerless r c))))
          [(find_data_start_row px sheet_headerless)..<min ((find_data_start_row px sheet_headerless) + 3) (nrows sheet_headerless)]))
     (min 4 (ncols sheet_headerless)) 1"
  by code_simp+

lemma sheet_slashes_miss:
  "find_header_row px sheet_slashes = None"
  "\<forall>c \<in> set [0..<min 4 (ncols sheet_slashes)].
     length (filter (\<lambda>r. \<not> isna px (cell sheet_slashes r c) \<and>
                ((py_in ''2022'' (str px (cell sheet_slashes r c)) \<or> py_in ''2023'' (str px (cell sheet_slashes r c)) \<or> py_in ''2024'' (str px (cell sheet_slashes r c)) \<or> py_in ''2025'' (str px (cell sheet_slashes r c)) \<or>
                 py_in '':'' (str px (cell sheet_slashes r c))) \<or>
                 py_in ''-'' (str px (cell sheet_slashes r c))))
          [(find_data_start_row px sheet_slashes)..<min ((find_data_start_row px sheet_slashes) + 3) (nrows sheet_slashes)]) < 2"
  by code_simp+

lemma sheet_labelled_label:
  "find_header_row px sheet_labelled = Some 1"
  "first_such (\<lambda>c. \<not> isna px (cell sheet_labelled 1 c) \<and> py_in ''date'' (lower (str px (cell sheet_labelled 1 c))))
     (ncols sheet_labelled) 1"
  by code_simp+

lemma sheet_unlabelled_data:
  "find_header_row px sheet_unlabelled = Some 1"
  "\<forall>c \<in> set [0..<ncols sheet_unlabelled].
     \<not> (\<not> isna px (cell sheet_unlabelled 1 c) \<and> py_in ''date'' (lower (str px (cell sheet_unlabelled 1 c))))"
  "first_such (\<lambda>c. 3 \<le> length (filter (\<lambda>r. \<not> isna px (cell sheet_unlabelled r c) \<and>
                (py_in ''2022'' (str px (cell sheet_unlabelled r c)) \<or> py_in ''2023'' (str px (cell sheet_unlabelled r c)) \<or> py_in ''2024'' (str px (cell sheet_unlabelled r c)) \<or> py_in ''2025'' (str px (cell sheet_unlabelled r c)) \<or>
                 py_in '':'' (str px (cell sheet_unlabelled r c))) \<and>
                parse_datetime px (str px (cell sheet_unlabelled r c)) \<noteq> None)
          [(find_data_start_row px sheet_unlabelled)..<min ((find_data_start_row px sheet_unlabelled) + 5) (nrows sheet_unlabelled)]))
     (min 4 (ncols sheet_unlabelled)) 1"
  by code_simp+

lemma sheet_dashes_left:
  "find_header_row px sheet_dashes = Some 1"
  "\<forall>c \<in> set [0..<ncols sheet_dashes].
     \<not> (\<not> isna px (cell sheet_dashes 1 c) \<and> py_in ''date'' (lower (str px (cell sheet_dashes 1 c))))"
  "\<forall>c \<in> set [0..<min 4 (ncols sheet_dashes)].
     length (filter (\<lambda>r. \<not> isna px (cell sheet_dashes r c) \<and>
                (py_in ''2022'' (str px (cell sheet_dashes r c)) \<or> py_in ''2023'' (str px (cell sheet_dashes r c)) \<or> py_in ''2024'' (str px (cell sheet_dashes r c)) \<or> py_in ''2025'' (str px (cell sheet_dashes r c)) \<or>
                 py_in '':'' (str px (cell sheet_dashes r c))) \<and>
                parse_datetime px (str px (cell sheet_dashes r c)) \<noteq> None)
          [(find_data_start_row px sheet_dashes)..<min ((find_data_start_row px sheet_dashes) + 5) (nrows sheet_dashes)]) < 3"
  "find_consumption_column px sheet_dashes ''MEASURED ACTIVE CONSUMPTION'' = Inr 2 \<and> (0::nat) < 2"
  by code_simp+

lemma sheet_colons_fallback:
  "find_header_row px sheet_colons = Some 1"
  "\<forall>c \<in> set [0..<ncols sheet_colons].
     \<not> (\<not> isna px (cell sheet_colons 1 c) \<and> py_in ''date'' (lower (str px (cell sheet_colons 1 c))))"
  "\<forall>c \<in> set [0..<min 4 (ncols sheet_colons)].
     length (filter (\<lambda>r. \<not> isna px (cell sheet_colons r c) \<and>
                (py_in ''2022'' (str px (cell sheet_colons r c)) \<or> py_in ''2023'' (str px (cell sheet_colons r c)) \<or> py_in ''2024'' (str px (cell sheet_colons r c)) \<or> py_in ''2025'' (str px (cell sheet_colons r c)) \<or>
                 py_in '':'' (str px (cell sheet_colons r c))) \<and>
                parse_datetime px (str px (cell sheet_colons r c)) \<noteq> None)
          [(find_data_start_row px sheet_colons)..<min ((find_data_start_row px sheet_colons) + 5) (nrows sheet_colons)]) < 3"
  "find_consumption_column px sheet_colons ''MEASURED ACTIVE CONSUMPTION'' = Inr 0"
  "(find_data_start_row px sheet_colons) < nrows sheet_colons \<and> \<not> isna px (cell sheet_colons (find_data_start_row px sheet_colons) 0) \<and>
     (py_in ''2022'' (str px (cell sheet_colons (find_data_start_row px sheet_colons) 0)) \<or> py_in ''2023'' (str px (cell sheet_colons (find_data_start_row px sheet_colons) 0)) \<or> py_in ''2024'' (str px (cell sheet_colons (find_data_start_row px sheet_colons) 0)) \<or> py_in ''2025'' (str px (cell sheet_colons (find_data_start_row px sheet_colons) 0)) \<or>
                 py_in '':'' (str px (cell sheet_colons (find_data_start_row px sheet_colons) 0)))"
  by code_simp+

lemma sheet_bare_fallback:
  "find_header_row px sheet_bare = Some 1"
  "\<forall>c \<in> set [0..<ncols sheet_bare].
     \<not> (\<not> isna px (cell sheet_bare 1 c) \<and> py_in ''date'' (lower (str px (cell sheet_bare 1 c))))"
  "\<forall>c \<in> set [0..<min 4 (ncols sheet_bare)].
     length (filter (\<lambda>r. \<not> isna px (cell sheet_bare r c) \<and>
                (py_in ''2022'' (str px (cell sheet_bare r c)) \<or> py_in ''2023'' (str px (cell sheet_bare r c)) \<or> py_in ''2024'' (str px (cell sheet_bare r c)) \<or> py_in ''2025'' (str px (cell sheet_bare r c)) \<or>
                 py_in '':'' (str px (cell sheet_bare r c))) \<and>
                parse_datetime px (str px (cell sheet_bare r c)) \<noteq> None)
          [(find_data_start_row px sheet_bare)..<min ((find_data_start_row px sheet_bare) + 5) (nrows sheet_bare)]) < 3"
  "find_consumption_column px sheet_bare ''MEASURED ACTIVE CONSUMPTION'' = Inr 0"
  "\<not> ((find_data_start_row px sheet_bare) < nrows sheet_bare \<and> \<not> isna px (cell sheet_bare (find_data_start_row px sheet_bare) 0) \<and>
     (py_in ''2022'' (str px (cell sheet_bare (find_data_start_row px sheet_bare) 0)) \<or> py_in ''2023'' (str px (cell sheet_bare (find_data_start_row px sheet_bare) 0)) \<or> py_in ''2024'' (str px (cell sheet_bare (find_data_start_row px sheet_bare) 0)) \<or> py_in ''2025'' (str px (cell sheet_bare (find_data_start_row px sheet_bare) 0)) \<or>
                 py_in '':'' (str px (cell sheet_bare (find_data_start_row px sheet_bare) 0))))"
  by code_simp+

theorem C6_timestamp_column_resolution_witness:
  "find_timestamp_column_log px sheet_headerless = (1, FoundByHeuristic 1) \<and>
   find_timestamp_column_log px sheet_slashes = (0, WarnHeaderlessColumn0) \<and>
   find_timestamp_column_log px sheet_labelled = (1, FoundDateHeader 1 2) \<and>
   find_timestamp_column_log px sheet_unlabelled = (1, FoundByDataAnalysis 1) \<and>
   find_timestamp_column_log px sheet_dashes = (1, InferredFromConsumption 1) \<and>
   find_timestamp_column_log px sheet_colons = (0, Column0DatePattern) \<and>
   find_timestamp_column_log px sheet_bare = (0, WarnColumn0)"
proof -
  note inst = C6_timestamp_column_resolution [where P = px, unfolded Let_def]
  from inst [where g = sheet_headerless and col = 1] sheet_headerless_hit
  have a: "find_timestamp_column_log px sheet_headerless = (1, FoundByHeuristic 1)"
    by blast
  from inst [where g = sheet_slashes] sheet_slashes_miss
  have b: "find_timestamp_column_log px sheet_slashes = (0, WarnHeaderlessColumn0)"
    by blast
  from inst [where g = sheet_labelled and h = 1 and col = 1] sheet_labelled_label
  have c: "find_timestamp_column_log px sheet_labelled = (1, FoundDateHeader 1 (1 + 1))"
    by blast
  from inst [where g = sheet_unlabelled and h = 1 and col = 1] sheet_unlabelled_data
  have d: "find_timestamp_column_log px sheet_unlabelled = (1, FoundByDataAnalysis 1)"
    by blast
  from inst [where g = sheet_dashes and h = 1 and cc = 2] sheet_dashes_left
  have e: "find_timestamp_column_log px sheet_dashes = (2 - 1, InferredFromConsumption (2 - 1))"
    by blast
  have none_colons: "\<forall>k. \<not> (find_consumption_column px sheet_colons
      ''MEASURED ACTIVE CONSUMPTION'' = Inr k \<and> 0 < k)"
    by (auto simp add: sheet_colons_fallback(4))
  from inst [where g = sheet_colons and h = 1] sheet_colons_fallback(1-3,5) none_colons
  have f: "find_timestamp_column_log px sheet_colons = (0, Column0DatePattern)"
    by blast
  have none_bare: "\<forall>k. \<not> (find_consumption_column px sheet_bare
      ''MEASURED ACTIVE CONSUMPTION'' = Inr k \<and> 0 < k)"
    by (auto simp add: sheet_bare_fallback(4))
  from inst [where g = sheet_bare and h = 1] sheet_bare_fallback(1-3,5) none_bare
  have g: "find_timestamp_column_log px sheet_bare = (0, WarnColumn0)"
    by blast
  from a b c d e f g show ?thesis by simp
qed


end
